theory Spec2Isabelle
  imports Complex_Main "HOL-Library.Log_Nat"
begin

section \<open>Python values\<close>

text \<open>
  The analyzer works on the value that \<^verbatim>\<open>json.loads\<close> returns: \<^verbatim>\<open>None\<close>, a bool, an
  unbounded int, a float, a str, a list or a dict. A dict is kept as an association list
  in insertion order, because \<^verbatim>\<open>_normalize_scores\<close> iterates over \<^verbatim>\<open>items()\<close> and the
  first value that cannot be rounded decides which exception is raised. A Python dict
  never holds a key twice: \<open>distinct (map fst kvs)\<close> is the well-formedness condition of
  \<open>JDict kvs\<close>, and lookups go through \<open>map_of\<close>.

  A float is an IEEE 754 binary64 number. A finite one is represented by the rational
  number it denotes; the two zeros are not distinguished (they compare equal and are both
  falsy in Python). \<^verbatim>\<open>json.loads\<close> accepts \<^verbatim>\<open>Infinity\<close>, \<^verbatim>\<open>-Infinity\<close> and \<^verbatim>\<open>NaN\<close>, and
  reads \<^verbatim>\<open>1e999\<close> as infinity, so the non-finite values are part of the input type.

  A str is represented by the bytes of its UTF-8 encoding, so that every sequence of
  Unicode characters is a value of type \<open>string\<close> (a str holding an unpaired surrogate,
  which has no encoding, is left out). Concatenation is the same on both sides, and a
  search for an ASCII character finds the same places, since no byte of a multi-byte
  character is an ASCII byte.
\<close>

datatype pyfloat = Fin rat | PInf | NInf | NaN

datatype json =
    JNull
  | JBool bool
  | JInt int
  | JFloat pyfloat
  | JStr string
  | JList "json list"
  | JDict "(string \<times> json) list"

text \<open>The exceptions that the code under verification can raise, each with its message.\<close>

datatype error =
    JSONDecodeError string
  | AttributeError string
  | TypeError string
  | ValueError string
  | OverflowError string
  | OtherError string

fun str_of_error :: "error \<Rightarrow> string" where
  "str_of_error (JSONDecodeError m) = m"
| "str_of_error (AttributeError m) = m"
| "str_of_error (TypeError m) = m"
| "str_of_error (ValueError m) = m"
| "str_of_error (OverflowError m) = m"
| "str_of_error (OtherError m) = m"

fun type_name :: "json \<Rightarrow> string" where
  "type_name JNull = ''NoneType''"
| "type_name (JBool _) = ''bool''"
| "type_name (JInt _) = ''int''"
| "type_name (JFloat _) = ''float''"
| "type_name (JStr _) = ''str''"
| "type_name (JList _) = ''list''"
| "type_name (JDict _) = ''dict''"

text \<open>\<^verbatim>\<open>d.get(key, default)\<close> on a dict.\<close>

definition dict_get :: "(string \<times> json) list \<Rightarrow> string \<Rightarrow> json \<Rightarrow> json" where
  "dict_get d k dflt = (case map_of d k of None \<Rightarrow> dflt | Some v \<Rightarrow> v)"

text \<open>Truth value of an object, as \<^verbatim>\<open>not x\<close> tests it.\<close>

fun py_truthy :: "json \<Rightarrow> bool" where
  "py_truthy JNull = False"
| "py_truthy (JBool b) = b"
| "py_truthy (JInt n) = (n \<noteq> 0)"
| "py_truthy (JFloat (Fin r)) = (r \<noteq> 0)"
| "py_truthy (JFloat _) = True"
| "py_truthy (JStr s) = (s \<noteq> [])"
| "py_truthy (JList xs) = (xs \<noteq> [])"
| "py_truthy (JDict kvs) = (kvs \<noteq> [])"

text \<open>\<^verbatim>\<open>x == n\<close> for an int literal \<open>n\<close>: numbers compare by value, a bool counts as 0 or 1.\<close>

fun py_eq_int :: "json \<Rightarrow> int \<Rightarrow> bool" where
  "py_eq_int (JBool b) n = ((if b then 1 else 0) = n)"
| "py_eq_int (JInt m) n = (m = n)"
| "py_eq_int (JFloat (Fin r)) n = (r = of_int n)"
| "py_eq_int _ n = False"

text \<open>\<^verbatim>\<open>isinstance(value, (int, float))\<close>: \<^verbatim>\<open>bool\<close> is a subclass of \<^verbatim>\<open>int\<close>.\<close>

fun is_int_or_float :: "json \<Rightarrow> bool" where
  "is_int_or_float (JBool _) = True"
| "is_int_or_float (JInt _) = True"
| "is_int_or_float (JFloat _) = True"
| "is_int_or_float _ = False"

fun is_dict :: "json \<Rightarrow> bool" where
  "is_dict (JDict _) = True"
| "is_dict _ = False"

text \<open>\<^verbatim>\<open>sep.join(xs)\<close>.\<close>

fun join :: "string \<Rightarrow> string list \<Rightarrow> string" where
  "join sep [] = []"
| "join sep [x] = x"
| "join sep (x # y # ys) = x @ sep @ join sep (y # ys)"

section \<open>Floating-point arithmetic\<close>

text \<open>
  Rounding to the nearest integer with ties to the even one: what \<^verbatim>\<open>round(x)\<close> does on a
  float, and what every IEEE operation does on the significand.
\<close>

definition round_half_even :: "rat \<Rightarrow> int" where
  "round_half_even x =
     (let f = \<lfloor>x\<rfloor>; d = x - of_int f
      in if d < 1 / 2 then f else if 1 / 2 < d then f + 1 else if even f then f else f + 1)"

definition pow2 :: "int \<Rightarrow> rat" where
  "pow2 e = (if 0 \<le> e then 2 ^ nat e else 1 / 2 ^ nat (- e))"

text \<open>The binary exponent \<open>\<lfloor>log\<^sub>2 a\<rfloor>\<close> of a positive rational, computed on bit lengths.\<close>

definition binade :: "rat \<Rightarrow> int" where
  "binade a =
     (if 1 \<le> a then int (floorlog 2 (nat \<lfloor>a\<rfloor>)) - 1
      else - int (floorlog 2 (nat (\<lceil>1 / a\<rceil> - 1))))"

text \<open>
  The spacing of binary64 numbers around \<open>x\<close>: 53 significant bits, and the fixed spacing
  \<open>2\<^sup>-\<^sup>1\<^sup>0\<^sup>7\<^sup>4\<close> of the subnormal range below \<open>2\<^sup>-\<^sup>1\<^sup>0\<^sup>2\<^sup>2\<close>.
\<close>

definition ulp :: "rat \<Rightarrow> rat" where
  "ulp x = pow2 (max (binade \<bar>x\<bar>) (- 1022) - 52)"

definition rnd :: "rat \<Rightarrow> rat" where
  "rnd x = (if x = 0 then 0 else of_int (round_half_even (x / ulp x)) * ulp x)"

text \<open>
  \<open>fl x\<close> is the binary64 value of the real number \<open>x\<close> under round-to-nearest-even:
  the result of an arithmetic operation whose exact result is \<open>x\<close>, and the value of a
  decimal literal. A result of magnitude \<open>2\<^sup>1\<^sup>0\<^sup>2\<^sup>4\<close> or more overflows to infinity.
\<close>

definition fl :: "rat \<Rightarrow> pyfloat" where
  "fl x = (let r = rnd x
           in if 2 ^ 1024 \<le> \<bar>r\<bar> then (if 0 < x then PInf else NInf) else Fin r)"

fun fmul :: "pyfloat \<Rightarrow> pyfloat \<Rightarrow> pyfloat" where
  "fmul (Fin a) (Fin b) = fl (a * b)"
| "fmul NaN _ = NaN"
| "fmul _ NaN = NaN"
| "fmul (Fin a) PInf = (if a = 0 then NaN else if 0 < a then PInf else NInf)"
| "fmul (Fin a) NInf = (if a = 0 then NaN else if 0 < a then NInf else PInf)"
| "fmul PInf (Fin b) = (if b = 0 then NaN else if 0 < b then PInf else NInf)"
| "fmul NInf (Fin b) = (if b = 0 then NaN else if 0 < b then NInf else PInf)"
| "fmul PInf PInf = PInf"
| "fmul PInf NInf = NInf"
| "fmul NInf PInf = NInf"
| "fmul NInf NInf = PInf"

fun fadd :: "pyfloat \<Rightarrow> pyfloat \<Rightarrow> pyfloat" where
  "fadd (Fin a) (Fin b) = fl (a + b)"
| "fadd NaN _ = NaN"
| "fadd _ NaN = NaN"
| "fadd PInf NInf = NaN"
| "fadd NInf PInf = NaN"
| "fadd PInf _ = PInf"
| "fadd NInf _ = NInf"
| "fadd _ PInf = PInf"
| "fadd _ NInf = NInf"

text \<open>
  The float operand that \<^verbatim>\<open>int * float\<close> converts its int to. The conversion is exact up
  to \<open>2\<^sup>5\<^sup>3\<close>; the scores it is applied to lie between 1 and 10.
\<close>

definition float_of_int :: "int \<Rightarrow> pyfloat" where
  "float_of_int n = fl (of_int n)"

text \<open>
  \<^verbatim>\<open>round(x, 1)\<close> on a float: the exact value of \<open>x\<close> is rounded to one decimal place, ties
  to the even digit, and the decimal result is converted back to the nearest float.
  Infinities and NaN are returned as they are.
\<close>

fun py_round1 :: "pyfloat \<Rightarrow> pyfloat" where
  "py_round1 (Fin r) = fl (of_int (round_half_even (r * 10)) / 10)"
| "py_round1 x = x"

text \<open>
  \<^verbatim>\<open>round(value)\<close> for a value that passed the \<^verbatim>\<open>isinstance\<close> test: an int (or bool) is
  returned as it is, a finite float is rounded half to even, and the non-finite floats
  raise.
\<close>

fun py_round :: "json \<Rightarrow> error + int" where
  "py_round (JBool b) = Inr (if b then 1 else 0)"
| "py_round (JInt n) = Inr n"
| "py_round (JFloat (Fin r)) = Inr (round_half_even r)"
| "py_round (JFloat NaN) = Inl (ValueError ''cannot convert float NaN to integer'')"
| "py_round (JFloat _) = Inl (OverflowError ''cannot convert float infinity to integer'')"
| "py_round v = Inl (TypeError (''type '' @ type_name v @ '' doesn't define __round__ method''))"

section \<open>Configuration (\<^verbatim>\<open>src/config.py\<close>)\<close>

text \<open>
  \<^verbatim>\<open>Config.score_weights\<close> is a dict with the keys \<^verbatim>\<open>quality\<close>, \<^verbatim>\<open>security\<close> and
  \<^verbatim>\<open>performance\<close>; the analyzer reads exactly these three entries, as floats.
\<close>

record score_weights =
  quality :: pyfloat
  security :: pyfloat
  performance :: pyfloat

record config =
  model :: string
  max_tokens :: int
  temperature :: pyfloat
  weights :: score_weights

text \<open>The defaults of the class: the literals \<^verbatim>\<open>0.4\<close>, \<^verbatim>\<open>0.35\<close>, \<^verbatim>\<open>0.25\<close>, \<^verbatim>\<open>0.1\<close>.\<close>

definition default_score_weights :: score_weights where
  "default_score_weights =
     \<lparr>quality = fl (4 / 10), security = fl (35 / 100), performance = fl (25 / 100)\<rparr>"

definition default_config :: config where
  "default_config =
     \<lparr>model = ''gpt-4o'', max_tokens = 4000, temperature = fl (1 / 10),
      weights = default_score_weights\<rparr>"

definition extension_map :: "(string \<times> string) list" where
  "extension_map =
     [(''.py'', ''python''), (''.js'', ''javascript''), (''.ts'', ''typescript''),
      (''.tsx'', ''typescript''), (''.jsx'', ''javascript''), (''.java'', ''java''),
      (''.cpp'', ''cpp''), (''.c'', ''c''), (''.h'', ''c''), (''.hpp'', ''cpp''),
      (''.go'', ''go''), (''.rs'', ''rust''), (''.php'', ''php''), (''.rb'', ''ruby''),
      (''.swift'', ''swift''), (''.kt'', ''kotlin''), (''.scala'', ''scala'')]"

text \<open>
  \<^verbatim>\<open>str.lower()\<close> follows the Unicode case mapping of the whole string: it maps the Kelvin
  sign U+212A to \<^verbatim>\<open>k\<close>, one character to two (U+0130), and the capital sigma according
  to its position in the word. It is therefore a parameter \<open>str_lower\<close> of
  \<open>get_file_extension_language\<close>, and what is proved holds for every function in its place.

  On a str of ASCII characters, \<^verbatim>\<open>str.lower()\<close> replaces the letters \<^verbatim>\<open>A\<close> to \<^verbatim>\<open>Z\<close> by
  \<^verbatim>\<open>a\<close> to \<^verbatim>\<open>z\<close>; \<open>ascii_lower\<close> is that function, for the examples with ASCII file names.
\<close>

definition ascii_lower_char :: "char \<Rightarrow> char" where
  "ascii_lower_char c =
     (case map_of (zip ''ABCDEFGHIJKLMNOPQRSTUVWXYZ'' ''abcdefghijklmnopqrstuvwxyz'') c of
        None \<Rightarrow> c
      | Some l \<Rightarrow> l)"

definition ascii_lower :: "string \<Rightarrow> string" where
  "ascii_lower s = map ascii_lower_char s"

text \<open>
  \<^verbatim>\<open>p.rfind(c)\<close>: the index of the last occurrence of \<open>c\<close>, or \<open>-1\<close>. The index counts
  bytes; it is only compared with another such index and used to cut the same string.
\<close>

fun rfind_from :: "char \<Rightarrow> string \<Rightarrow> int \<Rightarrow> int \<Rightarrow> int" where
  "rfind_from c [] i found = found"
| "rfind_from c (x # xs) i found = rfind_from c xs (i + 1) (if x = c then i else found)"

definition rfind :: "char \<Rightarrow> string \<Rightarrow> int" where
  "rfind c p = rfind_from c p 0 (- 1)"

text \<open>
  The loop of \<^verbatim>\<open>genericpath._splitext\<close> that skips the leading dots of the base name: it
  returns the split as soon as it meets a character that is not a dot.
\<close>

fun has_non_dot :: "string \<Rightarrow> bool" where
  "has_non_dot [] = False"
| "has_non_dot (c # cs) = (if c \<noteq> CHR ''.'' then True else has_non_dot cs)"

text \<open>
  \<^verbatim>\<open>os.path.splitext(p)[1]\<close> of \<^verbatim>\<open>posixpath\<close> (separator \<^verbatim>\<open>/\<close>, no alternative
  separator): the suffix from the last dot, if that dot comes after the last separator
  and after a character of the base name that is not a dot; otherwise the empty string.
\<close>

definition splitext_ext :: "string \<Rightarrow> string" where
  "splitext_ext p =
     (let sepIndex = rfind CHR ''/'' p;
          dotIndex = rfind CHR ''.'' p
      in if dotIndex > sepIndex
            \<and> has_non_dot (take (nat (dotIndex - (sepIndex + 1))) (drop (nat (sepIndex + 1)) p))
         then drop (nat dotIndex) p
         else [])"

definition get_file_extension_language :: "(string \<Rightarrow> string) \<Rightarrow> string \<Rightarrow> string option" where
  "get_file_extension_language str_lower filename =
     (let ext = str_lower (splitext_ext filename) in map_of extension_map ext)"

section \<open>Prompt builder (\<^verbatim>\<open>src/code_analyzer.py\<close>)\<close>

text \<open>
  The methods of \<^verbatim>\<open>CodeAnalyzer\<close> keep their names without the leading underscore, which
  an Isabelle name cannot start with. \<^verbatim>\<open>self\<close> holds the configuration; the client object
  is the remote call, which is passed to \<open>analyze_code\<close> as a function.
\<close>

record analyzer =
  cfg :: config

definition get_system_prompt :: "analyzer \<Rightarrow> string" where
  \<open>get_system_prompt self =
     ''You are an expert code reviewer and security analyst. Your job is to analyze code for:\<newline>'' @
     ''\<newline>'' @
     ''1. CODE QUALITY: Readability, maintainability, best practices, design patterns\<newline>'' @
     ''2. SECURITY: Vulnerabilities, unsafe practices, potential exploits\<newline>'' @
     ''3. PERFORMANCE: Efficiency, optimization opportunities, resource usage\<newline>'' @
     ''\<newline>'' @
     ''You must respond with a valid JSON object containing:\<newline>'' @
     ''{\<newline>'' @
     ''    "overall_score": <number 1-10>,\<newline>'' @
     ''    "scores": {\<newline>'' @
     ''        "Quality": <number 1-10>,\<newline>'' @
     ''        "Security": <number 1-10>,\<newline>'' @
     ''        "Performance": <number 1-10>\<newline>'' @
     ''    },\<newline>'' @
     ''    "issues": [\<newline>'' @
     ''        {\<newline>'' @
     ''            "type": "Quality|Security|Performance",\<newline>'' @
     ''            "severity": "Low|Medium|High|Critical",\<newline>'' @
     ''            "description": "Clear description of the issue",\<newline>'' @
     ''            "line": <line number or null>,\<newline>'' @
     ''            "code": "problematic code snippet or null"\<newline>'' @
     ''        }\<newline>'' @
     ''    ],\<newline>'' @
     ''    "recommendations": [\<newline>'' @
     ''        "Specific actionable recommendation"\<newline>'' @
     ''    ],\<newline>'' @
     ''    "summary": "Brief summary of the analysis"\<newline>'' @
     ''}\<newline>'' @
     ''\<newline>'' @
     ''Be thorough but constructive. Focus on actionable feedback.''\<close>

text \<open>The list \<^verbatim>\<open>analysis_aspects\<close> after the three conditional appends.\<close>

definition analysis_aspects :: "bool \<Rightarrow> bool \<Rightarrow> bool \<Rightarrow> string list" where
  "analysis_aspects include_security include_performance include_style =
     (let a0 = [];
          a1 = (if include_style then a0 @ [''code quality and style''] else a0);
          a2 = (if include_security then a1 @ [''security vulnerabilities''] else a1);
          a3 = (if include_performance then a2 @ [''performance optimization''] else a2)
      in a3)"

definition prompt_tail :: string where
  \<open>prompt_tail =
     ''\<newline>'' @
     ''Focus on:\<newline>'' @
     ''- Code quality: readability, maintainability, best practices, naming conventions\<newline>'' @
     ''- Security: potential vulnerabilities, unsafe operations, input validation\<newline>'' @
     ''- Performance: efficiency, algorithm complexity, resource usage\<newline>'' @
     ''- Specific issues with line numbers when possible\<newline>'' @
     ''- Actionable recommendations for improvement\<newline>'' @
     ''\<newline>'' @
     ''Provide scores from 1-10 (10 being excellent) and specific, actionable feedback.''\<close>

definition build_analysis_prompt ::
  "analyzer \<Rightarrow> string \<Rightarrow> string \<Rightarrow> string \<Rightarrow> bool \<Rightarrow> bool \<Rightarrow> bool \<Rightarrow> string" where
  \<open>build_analysis_prompt self code_text language filename
       include_security include_performance include_style =
     (let aspects_text =
            join '', '' (analysis_aspects include_security include_performance include_style)
      in ''Please analyze this '' @ language @ '' code file ('' @ filename @ '') for ''
           @ aspects_text @ ''.\<newline>'' @
         ''\<newline>'' @
         ''Code to analyze:\<newline>'' @
         ''```'' @ language @ ''\<newline>'' @
         code_text @ ''\<newline>'' @
         ''```\<newline>'' @
         prompt_tail)\<close>

text \<open>
  The first statement of \<^verbatim>\<open>analyze_code\<close>:
  \<^verbatim>\<open>language = self.config.get_file_extension_language(filename) or "python"\<close>.
  \<^verbatim>\<open>or\<close> takes its right operand when the left one is \<^verbatim>\<open>None\<close> or the empty string.
\<close>

definition detect_language :: "(string \<Rightarrow> string) \<Rightarrow> string \<Rightarrow> string" where
  "detect_language str_lower filename =
     (case get_file_extension_language str_lower filename of
        None \<Rightarrow> ''python''
      | Some l \<Rightarrow> if l = [] then ''python'' else l)"

section \<open>Result normalizer (\<^verbatim>\<open>src/code_analyzer.py\<close>)\<close>

record issue =
  type :: json
  severity :: json
  description :: string
  line :: json
  code :: json

text \<open>
  The dict that \<^verbatim>\<open>_process_analysis_result\<close> and \<^verbatim>\<open>_create_error_result\<close> return. The
  scores are a dict from names to ints; \<^verbatim>\<open>overall_score\<close>, \<^verbatim>\<open>recommendations\<close> and
  \<^verbatim>\<open>summary\<close> hold whatever value the code leaves there.
\<close>

record result =
  overall_score :: json
  scores :: "string \<rightharpoonup> int"
  issues :: "issue list"
  recommendations :: json
  summary :: json

definition initial_scores :: "string \<rightharpoonup> int" where
  "initial_scores = [''Quality'' \<mapsto> 5, ''Security'' \<mapsto> 5, ''Performance'' \<mapsto> 5]"

text \<open>
  The loop of \<^verbatim>\<open>_normalize_scores\<close> over \<^verbatim>\<open>scores.items()\<close>, with the dict \<^verbatim>\<open>normalized\<close>
  as accumulator. An exception of \<^verbatim>\<open>round\<close> leaves the loop at once.
\<close>

fun normalize_loop :: "(string \<times> json) list \<Rightarrow> (string \<rightharpoonup> int) \<Rightarrow> error + (string \<rightharpoonup> int)" where
  "normalize_loop [] normalized = Inr normalized"
| "normalize_loop ((key, v) # rest) normalized =
     (if is_int_or_float v
      then (case py_round v of
              Inl e \<Rightarrow> Inl e
            | Inr n \<Rightarrow> normalize_loop rest (normalized(key \<mapsto> max 1 (min 10 n))))
      else normalize_loop rest normalized)"

text \<open>\<^verbatim>\<open>scores.items()\<close> exists on a dict only.\<close>

fun normalize_scores :: "json \<Rightarrow> error + (string \<rightharpoonup> int)" where
  "normalize_scores (JDict kvs) = normalize_loop kvs initial_scores"
| "normalize_scores v =
     Inl (AttributeError ([CHR 39] @ type_name v @ [CHR 39] @ '' object has no attribute ''
                            @ [CHR 39] @ ''items'' @ [CHR 39]))"

text \<open>
  \<^verbatim>\<open>str(x)\<close>: a str is returned as it is. The text that Python prints for any other value
  (its \<^verbatim>\<open>repr\<close>) is a parameter.
\<close>

fun py_str :: "(json \<Rightarrow> string) \<Rightarrow> json \<Rightarrow> string" where
  "py_str repr (JStr s) = s"
| "py_str repr v = repr v"

text \<open>\<^verbatim>\<open>x not in [s\<^sub>1, ..., s\<^sub>n]\<close> for a list of str literals: only an equal str is in the list.\<close>

fun in_str_list :: "json \<Rightarrow> string list \<Rightarrow> bool" where
  "in_str_list (JStr s) xs = (s \<in> set xs)"
| "in_str_list _ xs = False"

text \<open>The body of the loop of \<^verbatim>\<open>_validate_issues\<close> for an entry that is a dict.\<close>

definition validated_issue :: "(json \<Rightarrow> string) \<Rightarrow> (string \<times> json) list \<Rightarrow> issue" where
  "validated_issue repr d =
     (let v0 = \<lparr>type = dict_get d ''type'' (JStr ''Quality''),
                severity = dict_get d ''severity'' (JStr ''Medium''),
                description = py_str repr (dict_get d ''description'' (JStr ''No description provided'')),
                line = dict_get d ''line'' JNull,
                code = dict_get d ''code'' JNull\<rparr>;
          v1 = (if \<not> in_str_list (severity v0) [''Low'', ''Medium'', ''High'', ''Critical'']
                then v0\<lparr>severity := JStr ''Medium''\<rparr> else v0);
          v2 = (if \<not> in_str_list (type v1) [''Quality'', ''Security'', ''Performance'']
                then v1\<lparr>type := JStr ''Quality''\<rparr> else v1)
      in v2)"

fun validate_loop :: "(json \<Rightarrow> string) \<Rightarrow> json list \<Rightarrow> issue list \<Rightarrow> issue list" where
  "validate_loop repr [] valid_issues = valid_issues"
| "validate_loop repr (JDict d # rest) valid_issues =
     validate_loop repr rest (valid_issues @ [validated_issue repr d])"
| "validate_loop repr (_ # rest) valid_issues = validate_loop repr rest valid_issues"

text \<open>
  The characters of a str: in the UTF-8 encoding a character is a byte that is not a
  continuation byte (\<open>0x80\<close> to \<open>0xBF\<close>), together with the continuation bytes that
  follow it.
\<close>

definition is_continuation :: "char \<Rightarrow> bool" where
  "is_continuation c = (let n = (of_char c :: nat) in 128 \<le> n \<and> n < 192)"

fun code_points :: "string \<Rightarrow> string list" where
  "code_points [] = []"
| "code_points (c # cs) =
     (case code_points cs of
        [] \<Rightarrow> [[c]]
      | [] # ps \<Rightarrow> [c] # ps
      | (b # bs) # ps \<Rightarrow>
          if is_continuation b then (c # b # bs) # ps else [c] # (b # bs) # ps)"

text \<open>
  What \<^verbatim>\<open>for issue in issues\<close> iterates over: the elements of a list, the characters of a
  str, the keys of a dict; any other value is not iterable.
\<close>

fun py_iter :: "json \<Rightarrow> error + json list" where
  "py_iter (JList xs) = Inr xs"
| "py_iter (JStr s) = Inr (map JStr (code_points s))"
| "py_iter (JDict kvs) = Inr (map (\<lambda>kv. JStr (fst kv)) kvs)"
| "py_iter v = Inl (TypeError ([CHR 39] @ type_name v @ [CHR 39] @ '' object is not iterable''))"

definition validate_issues :: "(json \<Rightarrow> string) \<Rightarrow> json \<Rightarrow> error + issue list" where
  "validate_issues repr v =
     (case py_iter v of
        Inl e \<Rightarrow> Inl e
      | Inr xs \<Rightarrow> Inr (validate_loop repr xs []))"

text \<open>\<^verbatim>\<open>scores.get(name, 5)\<close> on the normalized scores.\<close>

definition score_get :: "(string \<rightharpoonup> int) \<Rightarrow> string \<Rightarrow> int" where
  "score_get m k = (case m k of None \<Rightarrow> 5 | Some n \<Rightarrow> n)"

text \<open>
  The expression of lines 167 to 172: three products of an int and a float, added from
  the left, and the sum rounded to one decimal.
\<close>

definition weighted_overall :: "score_weights \<Rightarrow> (string \<rightharpoonup> int) \<Rightarrow> pyfloat" where
  "weighted_overall w m =
     py_round1
       (fadd (fadd (fmul (float_of_int (score_get m ''Quality'')) (quality w))
                   (fmul (float_of_int (score_get m ''Security'')) (security w)))
             (fmul (float_of_int (score_get m ''Performance'')) (performance w)))"

text \<open>
  \<^verbatim>\<open>_process_analysis_result\<close>. \<^verbatim>\<open>raw_result.get\<close> exists on a dict only; the exceptions of
  \<^verbatim>\<open>_normalize_scores\<close> and of the iteration over the issues pass through.
\<close>

fun process_analysis_result :: "analyzer \<Rightarrow> (json \<Rightarrow> string) \<Rightarrow> json \<Rightarrow> error + result" where
  "process_analysis_result self repr (JDict raw_result) =
     (let p_overall = dict_get raw_result ''overall_score'' (JInt 5);
          p_scores = dict_get raw_result ''scores'' (JDict []);
          p_issues = dict_get raw_result ''issues'' (JList []);
          p_recommendations = dict_get raw_result ''recommendations'' (JList []);
          p_summary = dict_get raw_result ''summary'' (JStr ''Analysis completed'')
      in case normalize_scores p_scores of
           Inl e \<Rightarrow> Inl e
         | Inr normalized \<Rightarrow>
             (let overall =
                    (if \<not> py_truthy p_overall \<or> py_eq_int p_overall 5
                     then JFloat (weighted_overall (weights (cfg self)) normalized)
                     else p_overall)
              in case validate_issues repr p_issues of
                   Inl e \<Rightarrow> Inl e
                 | Inr valid_issues \<Rightarrow>
                     Inr \<lparr>overall_score = overall,
                          scores = normalized,
                          issues = valid_issues,
                          recommendations =
                            (case p_recommendations of
                               JStr s \<Rightarrow> JList [JStr s]
                             | _ \<Rightarrow> p_recommendations),
                          summary = p_summary\<rparr>))"
| "process_analysis_result self repr v =
     Inl (AttributeError ([CHR 39] @ type_name v @ [CHR 39] @ '' object has no attribute ''
                            @ [CHR 39] @ ''get'' @ [CHR 39]))"

definition create_error_result :: "string \<Rightarrow> result" where
  "create_error_result error_message =
     \<lparr>overall_score = JInt 0,
      scores = [''Quality'' \<mapsto> 0, ''Security'' \<mapsto> 0, ''Performance'' \<mapsto> 0],
      issues =
        [\<lparr>type = JStr ''Quality'',
          severity = JStr ''High'',
          description = ''Analysis failed: '' @ error_message,
          line = JNull,
          code = JNull\<rparr>],
      recommendations =
        JList [JStr ''Please check your code syntax and try again'',
               JStr ''Ensure your OpenAI API key is valid and has sufficient credits''],
      summary = JStr (''Analysis failed due to: '' @ error_message)\<rparr>"

text \<open>
  The two handlers of \<^verbatim>\<open>analyze_code\<close>: \<^verbatim>\<open>except json.JSONDecodeError\<close> first, then
  \<^verbatim>\<open>except Exception\<close> for everything else.
\<close>

fun handle_exception :: "error \<Rightarrow> result" where
  "handle_exception (JSONDecodeError m) =
     create_error_result (''Failed to parse AI response: '' @ m)"
| "handle_exception e = create_error_result (''Analysis failed: '' @ str_of_error e)"

text \<open>
  Lines 64 to 76 of \<^verbatim>\<open>analyze_code\<close>: the reply text is parsed, the parsed value is
  processed, and every exception ends in a handler. The parser \<^verbatim>\<open>json.loads\<close> is a
  parameter: it returns the parsed value or raises.
\<close>

definition normalize_reply ::
  "analyzer \<Rightarrow> (string \<Rightarrow> error + json) \<Rightarrow> (json \<Rightarrow> string) \<Rightarrow> string \<Rightarrow> result" where
  "normalize_reply self json_loads repr result_text =
     (case json_loads result_text of
        Inl e \<Rightarrow> handle_exception e
      | Inr analysis_result \<Rightarrow>
          (case process_analysis_result self repr analysis_result of
             Inl e \<Rightarrow> handle_exception e
           | Inr processed_result \<Rightarrow> processed_result))"

text \<open>
  \<^verbatim>\<open>analyze_code\<close>. The remote call is a parameter: given the system prompt and the user
  prompt it returns the text of the reply or raises.
\<close>

definition analyze_code ::
  "analyzer \<Rightarrow> (string \<Rightarrow> string) \<Rightarrow> (string \<Rightarrow> string \<Rightarrow> error + string)
     \<Rightarrow> (string \<Rightarrow> error + json) \<Rightarrow> (json \<Rightarrow> string)
     \<Rightarrow> string \<Rightarrow> string \<Rightarrow> bool \<Rightarrow> bool \<Rightarrow> bool \<Rightarrow> result" where
  "analyze_code self str_lower create json_loads repr code_text filename
       include_security include_performance include_style =
     (let language = detect_language str_lower filename;
          prompt = build_analysis_prompt self code_text language filename
                     include_security include_performance include_style
      in case create (get_system_prompt self) prompt of
           Inl e \<Rightarrow> handle_exception e
         | Inr result_text \<Rightarrow> normalize_reply self json_loads repr result_text)"



section \<open>The specification's wording\<close>

text \<open>
  The Issue record as the specification words it: the type is kept if it is one of
  Quality, Security, Performance and is Quality otherwise; the severity is kept if it is
  one of Low, Medium, High, Critical and is Medium otherwise; a non-mapping entry gives
  no issue.
\<close>

definition issue_of_spec :: "(json \<Rightarrow> string) \<Rightarrow> (string \<times> json) list \<Rightarrow> issue" where
  "issue_of_spec repr d =
     \<lparr>type = (if dict_get d ''type'' (JStr ''Quality'')
                   \<in> {JStr ''Quality'', JStr ''Security'', JStr ''Performance''}
              then dict_get d ''type'' (JStr ''Quality'') else JStr ''Quality''),
      severity = (if dict_get d ''severity'' (JStr ''Medium'')
                       \<in> {JStr ''Low'', JStr ''Medium'', JStr ''High'', JStr ''Critical''}
                  then dict_get d ''severity'' (JStr ''Medium'') else JStr ''Medium''),
      description = py_str repr (dict_get d ''description'' (JStr ''No description provided'')),
      line = dict_get d ''line'' JNull,
      code = dict_get d ''code'' JNull\<rparr>"

definition entry_of_spec :: "(json \<Rightarrow> string) \<Rightarrow> json \<Rightarrow> issue option" where
  "entry_of_spec repr v = (case v of JDict d \<Rightarrow> Some (issue_of_spec repr d) | _ \<Rightarrow> None)"

text \<open>
  The aspect names of the enabled booleans, in the fixed order quality and style,
  security, performance.
\<close>

definition aspects_of_spec :: "bool \<Rightarrow> bool \<Rightarrow> bool \<Rightarrow> string list" where
  "aspects_of_spec include_security include_performance include_style =
     map fst (filter snd [(''code quality and style'', include_style),
                          (''security vulnerabilities'', include_security),
                          (''performance optimization'', include_performance)])"






text \<open>
  "Falsy or exactly equal to 5": the values that Python treats as false, and the numbers
  that compare equal to the literal 5.
\<close>

definition falsy_or_five :: "json \<Rightarrow> bool" where
  "falsy_or_five v =
     (v \<in> {JNull, JBool False, JInt 0, JFloat (Fin 0), JStr [], JList [], JDict []}
      \<or> v \<in> {JInt 5, JFloat (Fin 5)})"

text \<open>
  The weighted sum \<open>Quality * w\<^sub>q\<^sub>u\<^sub>a\<^sub>l\<^sub>i\<^sub>t\<^sub>y + Security * w\<^sub>s\<^sub>e\<^sub>c\<^sub>u\<^sub>r\<^sub>i\<^sub>t\<^sub>y + Performance * w\<^sub>p\<^sub>e\<^sub>r\<^sub>f\<^sub>o\<^sub>r\<^sub>m\<^sub>a\<^sub>n\<^sub>c\<^sub>e\<close>
  in float arithmetic, before any rounding to a decimal.
\<close>

definition weighted_float_sum :: "score_weights \<Rightarrow> int \<Rightarrow> int \<Rightarrow> int \<Rightarrow> pyfloat" where
  "weighted_float_sum w q s p =
     fadd (fadd (fmul (float_of_int q) (quality w)) (fmul (float_of_int s) (security w)))
          (fmul (float_of_int p) (performance w))"

text \<open>
  "Rounded to one decimal": \<open>k / 10\<close> is the number with one decimal that is nearest to
  \<open>x\<close>; of two that are equally near, the one with the even last digit.
\<close>

definition nearest_tenth :: "rat \<Rightarrow> int \<Rightarrow> bool" where
  "nearest_tenth x k =
     (\<bar>x * 10 - of_int k\<bar> < 1 / 2 \<or> (\<bar>x * 10 - of_int k\<bar> = 1 / 2 \<and> even k))"

section \<open>The score loop and the issue loop\<close>

lemma normalize_loop_dom:
  "normalize_loop kvs n = Inr m \<Longrightarrow>
     dom m = dom n \<union> {k. \<exists>v. (k, v) \<in> set kvs \<and> is_int_or_float v}"
proof (induction kvs arbitrary: n)
  case Nil
  then show ?case by simp
next
  case (Cons kv kvs)
  obtain k v where kv: "kv = (k, v)" by (cases kv)
  show ?case
  proof (cases "is_int_or_float v")
    case False
    with Cons.prems kv have "normalize_loop kvs n = Inr m" by simp
    from Cons.IH [OF this] False kv show ?thesis by auto
  next
    case True
    with Cons.prems kv obtain i where r: "py_round v = Inr i"
      and rest: "normalize_loop kvs (n(k \<mapsto> max 1 (min 10 i))) = Inr m"
      by (auto split: sum.splits)
    have split: "{k'. \<exists>v'. (k', v') \<in> set (kv # kvs) \<and> is_int_or_float v'} =
        insert k {k'. \<exists>v'. (k', v') \<in> set kvs \<and> is_int_or_float v'}"
      using True kv by auto
    have "dom (n(k \<mapsto> max 1 (min 10 i))) = insert k (dom n)"
      by (simp only: dom_fun_upd option.simps if_False)
    with Cons.IH [OF rest]
    have "dom m = insert k (dom n) \<union> {k'. \<exists>v'. (k', v') \<in> set kvs \<and> is_int_or_float v'}"
      by (simp only:)
    then show ?thesis unfolding split by (simp only: Un_insert_left Un_insert_right)
  qed
qed

lemma normalize_loop_range:
  "normalize_loop kvs n = Inr m \<Longrightarrow> (\<And>k v. n k = Some v \<Longrightarrow> 1 \<le> v \<and> v \<le> 10) \<Longrightarrow>
     m k = Some v \<Longrightarrow> 1 \<le> v \<and> v \<le> 10"
proof (induction kvs arbitrary: n)
  case Nil
  then show ?case by simp
next
  case (Cons kv kvs)
  obtain k' v' where kv: "kv = (k', v')" by (cases kv)
  show ?case
  proof (cases "is_int_or_float v'")
    case False
    with Cons.prems(1) kv have "normalize_loop kvs n = Inr m" by simp
    from Cons.IH [OF this Cons.prems(2) Cons.prems(3)] show ?thesis .
  next
    case True
    with Cons.prems(1) kv obtain i where
      rest: "normalize_loop kvs (n(k' \<mapsto> max 1 (min 10 i))) = Inr m"
      by (auto split: sum.splits)
    have inv: "\<And>k v. (n(k' \<mapsto> max 1 (min 10 i))) k = Some v \<Longrightarrow> 1 \<le> v \<and> v \<le> 10"
      using Cons.prems(2) by (auto split: if_splits)
    from Cons.IH [OF rest inv Cons.prems(3)] show ?thesis .
  qed
qed

lemma normalize_loop_absent:
  "normalize_loop kvs n = Inr m \<Longrightarrow> k \<notin> fst ` set kvs \<Longrightarrow> m k = n k"
proof (induction kvs arbitrary: n)
  case Nil
  then show ?case by simp
next
  case (Cons kv kvs)
  obtain k' v' where kv: "kv = (k', v')" by (cases kv)
  with Cons.prems(2) have ne: "k \<noteq> k'" and notin: "k \<notin> fst ` set kvs" by auto
  show ?case
  proof (cases "is_int_or_float v'")
    case False
    with Cons.prems(1) kv have "normalize_loop kvs n = Inr m" by simp
    from Cons.IH [OF this notin] show ?thesis .
  next
    case True
    with Cons.prems(1) kv obtain i where
      rest: "normalize_loop kvs (n(k' \<mapsto> max 1 (min 10 i))) = Inr m"
      by (auto split: sum.splits)
    from Cons.IH [OF rest notin] ne show ?thesis by simp
  qed
qed

lemma normalize_loop_entry:
  "normalize_loop kvs n = Inr m \<Longrightarrow> distinct (map fst kvs) \<Longrightarrow> (k, v) \<in> set kvs \<Longrightarrow>
     m k = (if is_int_or_float v
            then (case py_round v of Inl e \<Rightarrow> None | Inr i \<Rightarrow> Some (max 1 (min 10 i)))
            else n k)"
proof (induction kvs arbitrary: n)
  case Nil
  then show ?case by simp
next
  case (Cons kv kvs)
  obtain k' v' where kv: "kv = (k', v')" by (cases kv)
  from Cons.prems(2) kv have d: "distinct (map fst kvs)" and fresh: "k' \<notin> fst ` set kvs"
    by auto
  show ?case
  proof (cases "(k, v) = (k', v')")
    case True
    then have k: "k' = k" and v: "v' = v" by auto
    show ?thesis
    proof (cases "is_int_or_float v")
      case False
      with Cons.prems(1) kv v have "normalize_loop kvs n = Inr m" by simp
      from normalize_loop_absent [OF this] fresh k False show ?thesis by simp
    next
      case num: True
      with Cons.prems(1) kv v k obtain i where r: "py_round v = Inr i"
        and rest: "normalize_loop kvs (n(k \<mapsto> max 1 (min 10 i))) = Inr m"
        by (auto split: sum.splits)
      from normalize_loop_absent [OF rest] fresh k have "m k = Some (max 1 (min 10 i))"
        by simp
      with num r show ?thesis by simp
    qed
  next
    case False
    with Cons.prems(3) kv have mem: "(k, v) \<in> set kvs" by auto
    show ?thesis
    proof (cases "is_int_or_float v'")
      case False
      with Cons.prems(1) kv have "normalize_loop kvs n = Inr m" by simp
      from Cons.IH [OF this d mem] show ?thesis .
    next
      case True
      with Cons.prems(1) kv obtain i where
        rest: "normalize_loop kvs (n(k' \<mapsto> max 1 (min 10 i))) = Inr m"
        by (auto split: sum.splits)
      from mem fresh have "k \<noteq> k'" by force
      with Cons.IH [OF rest d mem] show ?thesis by simp
    qed
  qed
qed

lemma validate_loop_map_filter:
  "validate_loop repr xs acc =
     acc @ List.map_filter (\<lambda>v. case v of JDict d \<Rightarrow> Some (validated_issue repr d) | _ \<Rightarrow> None) xs"
  by (induction repr xs acc rule: validate_loop.induct) (simp_all add: List.map_filter_simps)

lemma initial_scores_range: "initial_scores k = Some v \<Longrightarrow> 1 \<le> v \<and> v \<le> 10"
  by (auto simp: initial_scores_def split: if_splits)

lemma normalize_scores_range:
  assumes "normalize_scores sc = Inr m" "m k = Some v"
  shows "1 \<le> v \<and> v \<le> 10"
proof -
  from assms(1) obtain kvs where "normalize_loop kvs initial_scores = Inr m"
    by (cases sc) simp_all
  from normalize_loop_range [OF this initial_scores_range assms(2)] show ?thesis .
qed

text \<open>The characters of the str \<^verbatim>\<open>a\<close>, Kelvin sign, \<^verbatim>\<open>t\<close>.\<close>

lemma code_points_example:
  "code_points (''a'' @ [CHR 0xE2, CHR 0x84, CHR 0xAA] @ ''t'')
     = [''a'', [CHR 0xE2, CHR 0x84, CHR 0xAA], ''t'']"
  by (simp add: is_continuation_def)

section \<open>Rounding half to even\<close>

lemma round_half_even_of_int [simp]: "round_half_even (of_int n) = n"
  by (simp add: round_half_even_def)

lemma round_half_even_lower: "\<lfloor>x\<rfloor> \<le> round_half_even x"
  by (simp add: round_half_even_def Let_def)

lemma round_half_even_upper: "round_half_even x \<le> \<lfloor>x\<rfloor> + 1"
  by (simp add: round_half_even_def Let_def)

lemma round_half_even_mono:
  assumes "x \<le> y"
  shows "round_half_even x \<le> round_half_even y"
proof (cases "\<lfloor>x\<rfloor> = \<lfloor>y\<rfloor>")
  case True
  with assms have "x - of_int \<lfloor>x\<rfloor> \<le> y - of_int \<lfloor>y\<rfloor>" by simp
  with True show ?thesis by (simp add: round_half_even_def Let_def)
next
  case False
  from assms have "\<lfloor>x\<rfloor> \<le> \<lfloor>y\<rfloor>" by (rule floor_mono)
  with False have "\<lfloor>x\<rfloor> + 1 \<le> \<lfloor>y\<rfloor>" by simp
  with round_half_even_upper [of x] round_half_even_lower [of y] show ?thesis by linarith
qed

lemma round_half_even_error: "\<bar>of_int (round_half_even x) - x\<bar> \<le> 1 / 2"
proof -
  have "of_int \<lfloor>x\<rfloor> \<le> x" "x < of_int \<lfloor>x\<rfloor> + 1" by linarith+
  then show ?thesis by (auto simp: round_half_even_def Let_def)
qed

lemma round_half_even_near:
  assumes "of_int n - 1 / 2 < x" "x < of_int n + 1 / 2"
  shows "round_half_even x = n"
proof -
  have f: "of_int \<lfloor>x\<rfloor> \<le> x" "x < of_int \<lfloor>x\<rfloor> + 1" by linarith+
  from assms f have "of_int \<lfloor>x\<rfloor> < (of_int n + 1 :: rat)" "(of_int n - 1 :: rat) < of_int \<lfloor>x\<rfloor> + 1"
    by linarith+
  then have "(of_int \<lfloor>x\<rfloor> :: rat) < of_int (n + 1)" "(of_int (n - 1) :: rat) < of_int (\<lfloor>x\<rfloor> + 1)"
    by simp_all
  then have "\<lfloor>x\<rfloor> < n + 1" "n - 1 < \<lfloor>x\<rfloor> + 1"
    by (simp_all only: of_int_less_iff)
  then consider "\<lfloor>x\<rfloor> = n" | "\<lfloor>x\<rfloor> = n - 1" by linarith
  then show ?thesis
  proof cases
    case 1
    with assms show ?thesis by (simp add: round_half_even_def Let_def)
  next
    case 2
    with assms show ?thesis by (simp add: round_half_even_def Let_def)
  qed
qed

lemma round_half_even_tie:
  assumes "x = of_int n + 1 / 2"
  shows "round_half_even x = (if even n then n else n + 1)"
proof -
  have "\<lfloor>x\<rfloor> = n" unfolding assms by (simp add: floor_eq_iff)
  with assms show ?thesis by (simp add: round_half_even_def Let_def)
qed

lemma round_half_even_nearest: "nearest_tenth x (round_half_even (x * 10))"
proof -
  define t where "t = x * 10"
  have f: "of_int \<lfloor>t\<rfloor> \<le> t" "t < of_int \<lfloor>t\<rfloor> + 1" by linarith+
  consider "t - of_int \<lfloor>t\<rfloor> < 1 / 2" | "1 / 2 < t - of_int \<lfloor>t\<rfloor>"
    | "t - of_int \<lfloor>t\<rfloor> = 1 / 2" "even \<lfloor>t\<rfloor>" | "t - of_int \<lfloor>t\<rfloor> = 1 / 2" "odd \<lfloor>t\<rfloor>"
    by fastforce
  then have "\<bar>t - of_int (round_half_even t)\<bar> < 1 / 2
             \<or> (\<bar>t - of_int (round_half_even t)\<bar> = 1 / 2 \<and> even (round_half_even t))"
  proof cases
    case 1
    with f show ?thesis by (simp add: round_half_even_def Let_def)
  next
    case 2
    with f show ?thesis by (simp add: round_half_even_def Let_def)
  next
    case 3
    then show ?thesis by (simp add: round_half_even_def Let_def)
  next
    case 4
    then show ?thesis by (simp add: round_half_even_def Let_def)
  qed
  then show ?thesis unfolding nearest_tenth_def t_def .
qed

section \<open>Powers of two and the binary exponent\<close>

lemma pow2_powi: "pow2 e = 2 powi e"
proof (cases "0 \<le> e")
  case True
  then show ?thesis by (simp add: pow2_def power_int_def)
next
  case False
  have "inverse (2::rat) ^ nat (- e) = 1 / 2 ^ nat (- e)"
    by (simp only: inverse_eq_divide power_one_over)
  with False show ?thesis by (simp only: pow2_def power_int_def if_False)
qed

lemma pow2_pos [simp]: "0 < pow2 e"
  by (simp add: pow2_powi)

lemma pow2_add: "pow2 (a + b) = pow2 a * pow2 b"
  by (simp add: pow2_powi power_int_add)

lemma pow2_mono: "a \<le> b \<Longrightarrow> pow2 a \<le> pow2 b"
  by (simp add: pow2_powi power_int_increasing)

lemma pow2_strict_mono: "a < b \<Longrightarrow> pow2 a < pow2 b"
  by (simp add: pow2_powi power_int_strict_increasing)

lemma pow2_less_cancel: "pow2 a < pow2 b \<Longrightarrow> a < b"
  using pow2_mono [of b a] by (cases "a < b") simp_all

lemma pow2_nat: "pow2 (int n) = 2 ^ n"
  by (simp add: pow2_def)

lemma pow2_neg_nat: "pow2 (- int n) = 1 / 2 ^ n"
  by (simp add: pow2_powi power_int_minus inverse_eq_divide)

lemma binade_bounds:
  assumes "0 < a"
  shows "pow2 (binade a) \<le> a \<and> a < pow2 (binade a + 1)"
proof (cases "1 \<le> a")
  case True
  define n where "n = nat \<lfloor>a\<rfloor>"
  from True have n: "0 < n" by (simp add: n_def)
  have fa: "of_nat n \<le> a" "a < of_nat n + 1"
    using True by (simp_all add: n_def) linarith+
  have "(2::nat) ^ (floorlog 2 n - 1) \<le> n \<and> n < 2 ^ floorlog 2 n"
    by (rule floorlog_bounds [OF n]) simp
  then have b: "2 ^ (floorlog 2 n - 1) \<le> n" "n < 2 ^ floorlog 2 n"
    by blast+
  from n have fl0: "0 < floorlog 2 n" by (simp add: floorlog_def)
  have e: "binade a = int (floorlog 2 n - 1)"
    using True fl0 by (simp add: binade_def n_def of_nat_diff)
  have "(2::rat) ^ (floorlog 2 n - 1) \<le> of_nat n"
    using of_nat_mono [OF b(1), where ?'a = rat] by simp
  with fa have lo: "pow2 (binade a) \<le> a" unfolding e pow2_nat by linarith
  from b(2) have "n + 1 \<le> 2 ^ floorlog 2 n" by simp
  from of_nat_mono [OF this, where ?'a = rat]
  have "(of_nat (n + 1) :: rat) \<le> 2 ^ floorlog 2 n" by simp
  with fa have "a < 2 ^ floorlog 2 n" by simp
  moreover have "binade a + 1 = int (floorlog 2 n)" unfolding e using fl0 by simp
  ultimately have "a < pow2 (binade a + 1)" by (simp add: pow2_nat)
  with lo show ?thesis ..
next
  case False
  with assms have a1: "a < 1" by simp
  define m where "m = nat (\<lceil>1 / a\<rceil> - 1)"
  from assms a1 have inv: "1 < 1 / a" by simp
  with assms have c: "2 \<le> \<lceil>1 / a\<rceil>" by (simp add: le_ceiling_iff)
  then have m: "0 < m" by (simp add: m_def)
  from c have "0 \<le> \<lceil>1 / a\<rceil> - 1" by linarith
  then have im: "int m = \<lceil>1 / a\<rceil> - 1" unfolding m_def by (rule nat_0_le)
  have ca: "of_int \<lceil>1 / a\<rceil> - 1 < 1 / a" "1 / a \<le> of_int \<lceil>1 / a\<rceil>" by linarith+
  have ma: "of_nat m < 1 / a" "1 / a \<le> of_nat m + 1"
  proof -
    have "(of_nat m :: rat) = of_int (int m)" by simp
    also have "\<dots> = of_int \<lceil>1 / a\<rceil> - 1" unfolding im by simp
    finally have "(of_nat m :: rat) = of_int \<lceil>1 / a\<rceil> - 1" .
    with ca show "of_nat m < 1 / a" "1 / a \<le> of_nat m + 1" by simp_all
  qed
  have "(2::nat) ^ (floorlog 2 m - 1) \<le> m \<and> m < 2 ^ floorlog 2 m"
    by (rule floorlog_bounds [OF m]) simp
  then have b: "2 ^ (floorlog 2 m - 1) \<le> m" "m < 2 ^ floorlog 2 m"
    by blast+
  from m have fl0: "0 < floorlog 2 m" by (simp add: floorlog_def)
  have e: "binade a = - int (floorlog 2 m)"
    using False by (simp add: binade_def m_def)
  have "(2::rat) ^ (floorlog 2 m - 1) \<le> of_nat m"
    using of_nat_mono [OF b(1), where ?'a = rat] by simp
  with ma have "(2::rat) ^ (floorlog 2 m - 1) < 1 / a" by linarith
  with assms have "a < 1 / 2 ^ (floorlog 2 m - 1)"
    by (simp add: field_simps)
  moreover have "binade a + 1 = - int (floorlog 2 m - 1)" unfolding e using fl0 by simp
  ultimately have hi: "a < pow2 (binade a + 1)" by (simp only: pow2_neg_nat)
  from b(2) have "m + 1 \<le> 2 ^ floorlog 2 m" by simp
  from of_nat_mono [OF this, where ?'a = rat]
  have "(of_nat (m + 1) :: rat) \<le> 2 ^ floorlog 2 m" by simp
  with ma have "1 / a \<le> 2 ^ floorlog 2 m" by simp
  with assms have "1 / 2 ^ floorlog 2 m \<le> a" by (simp add: field_simps)
  then have "pow2 (binade a) \<le> a" unfolding e by (simp only: pow2_neg_nat)
  then show ?thesis using hi ..
qed

lemma binade_unique:
  assumes "0 < a" "pow2 e \<le> a" "a < pow2 (e + 1)"
  shows "binade a = e"
proof -
  from binade_bounds [OF assms(1)]
  have b: "pow2 (binade a) \<le> a" "a < pow2 (binade a + 1)" by simp_all
  from b(1) assms(3) have "pow2 (binade a) < pow2 (e + 1)" by simp
  then have 1: "binade a < e + 1" by (rule pow2_less_cancel)
  from assms(2) b(2) have "pow2 e < pow2 (binade a + 1)" by simp
  then have 2: "e < binade a + 1" by (rule pow2_less_cancel)
  from 1 2 show ?thesis by simp
qed

lemma binade_mono:
  assumes "0 < x" "x \<le> y"
  shows "binade x \<le> binade y"
proof -
  from assms have y: "0 < y" by simp
  from binade_bounds [OF assms(1)] binade_bounds [OF y] assms(2)
  have "pow2 (binade x) < pow2 (binade y + 1)" by simp
  then have "binade x < binade y + 1" by (rule pow2_less_cancel)
  then show ?thesis by simp
qed

section \<open>Rounding to binary64\<close>

lemma pow2_53: "pow2 53 = of_int (2 ^ 53)"
  by (simp add: pow2_def)

lemma pow2_52: "pow2 52 = of_int (2 ^ 52)"
  by (simp add: pow2_def)

lemma pow2_nonneg [simp]: "0 \<le> pow2 e"
  by (rule less_imp_le) (rule pow2_pos)

lemma round_half_even_0 [simp]: "round_half_even 0 = 0"
  by (simp add: round_half_even_def)

lemma ulp_pos [simp]: "0 < ulp x"
  by (simp add: ulp_def)

lemma rnd_pos_eq: "0 < x \<Longrightarrow> rnd x = of_int (round_half_even (x / ulp x)) * ulp x"
  by (simp add: rnd_def)

lemma rnd_nonneg:
  assumes "0 < x"
  shows "0 \<le> rnd x"
proof -
  from assms have "0 \<le> x / ulp x" by (intro divide_nonneg_pos less_imp_le ulp_pos)
  then have "round_half_even 0 \<le> round_half_even (x / ulp x)"
    by (rule round_half_even_mono)
  then have "0 \<le> round_half_even (x / ulp x)" by simp
  then have "(0::rat) \<le> of_int (round_half_even (x / ulp x))" by (simp only: of_int_0_le_iff)
  then show ?thesis unfolding rnd_pos_eq [OF assms]
    by (rule mult_nonneg_nonneg) (rule less_imp_le, rule ulp_pos)
qed

lemma rnd_upper:
  assumes "0 < x"
  shows "rnd x \<le> pow2 (max (binade x) (- 1022) + 1)"
proof -
  define E where "E = max (binade x) (- 1022)"
  have u: "ulp x = pow2 (E - 52)" using assms by (simp add: ulp_def E_def)
  have "53 + (E - 52) = E + 1" by simp
  with pow2_add [of 53 "E - 52"] have split: "pow2 (E + 1) = pow2 53 * pow2 (E - 52)"
    by (simp only:)
  from binade_bounds [OF assms] have "x < pow2 (binade x + 1)" by simp
  also have "\<dots> \<le> pow2 (E + 1)" by (rule pow2_mono) (simp add: E_def)
  finally have "x < pow2 53 * pow2 (E - 52)" unfolding split .
  then have "x / pow2 (E - 52) < pow2 53" by (simp add: pos_divide_less_eq)
  then have "x / pow2 (E - 52) \<le> of_int (2 ^ 53)" unfolding pow2_53 by simp
  then have "round_half_even (x / pow2 (E - 52)) \<le> round_half_even (of_int (2 ^ 53))"
    by (rule round_half_even_mono)
  then have "round_half_even (x / pow2 (E - 52)) \<le> 2 ^ 53" by (simp only: round_half_even_of_int)
  then have "(of_int (round_half_even (x / pow2 (E - 52))) :: rat) \<le> of_int (2 ^ 53)"
    by (simp only: of_int_le_iff)
  then have "of_int (round_half_even (x / pow2 (E - 52))) * pow2 (E - 52)
               \<le> of_int (2 ^ 53) * pow2 (E - 52)"
    by (rule mult_right_mono) simp
  then have "rnd x \<le> pow2 (E + 1)" unfolding rnd_pos_eq [OF assms] u split pow2_53 .
  then show ?thesis by (simp only: E_def)
qed

lemma rnd_lower:
  assumes "0 < x" "- 1022 \<le> binade x"
  shows "pow2 (binade x) \<le> rnd x"
proof -
  define E where "E = binade x"
  have u: "ulp x = pow2 (E - 52)" using assms by (simp add: ulp_def E_def max_def)
  have "52 + (E - 52) = E" by simp
  with pow2_add [of 52 "E - 52"] have split: "pow2 E = pow2 52 * pow2 (E - 52)"
    by (simp only:)
  from binade_bounds [OF assms(1)] have "pow2 E \<le> x" by (simp add: E_def)
  then have "pow2 52 * pow2 (E - 52) \<le> x" unfolding split .
  then have "pow2 52 \<le> x / pow2 (E - 52)" by (simp add: pos_le_divide_eq)
  then have "of_int (2 ^ 52) \<le> x / pow2 (E - 52)" unfolding pow2_52 .
  then have "round_half_even (of_int (2 ^ 52)) \<le> round_half_even (x / pow2 (E - 52))"
    by (rule round_half_even_mono)
  then have "2 ^ 52 \<le> round_half_even (x / pow2 (E - 52))" by (simp only: round_half_even_of_int)
  then have "(of_int (2 ^ 52) :: rat) \<le> of_int (round_half_even (x / pow2 (E - 52)))"
    by (simp only: of_int_le_iff)
  then have "of_int (2 ^ 52) * pow2 (E - 52)
               \<le> of_int (round_half_even (x / pow2 (E - 52))) * pow2 (E - 52)"
    by (rule mult_right_mono) simp
  then have "pow2 E \<le> rnd x" unfolding rnd_pos_eq [OF assms(1)] u split pow2_52 .
  then show ?thesis by (simp only: E_def)
qed

lemma rnd_mono:
  assumes "0 < x" "x \<le> y"
  shows "rnd x \<le> rnd y"
proof -
  from assms have y: "0 < y" by simp
  define Ex where "Ex = max (binade x) (- 1022)"
  define Ey where "Ey = max (binade y) (- 1022)"
  from binade_mono [OF assms] have le: "Ex \<le> Ey" by (simp add: Ex_def Ey_def)
  have ux: "ulp x = pow2 (Ex - 52)" using assms by (simp add: ulp_def Ex_def)
  have uy: "ulp y = pow2 (Ey - 52)" using y by (simp add: ulp_def Ey_def)
  show ?thesis
  proof (cases "Ex = Ey")
    case True
    from assms(2) have "x / pow2 (Ey - 52) \<le> y / pow2 (Ey - 52)"
      by (rule divide_right_mono) (rule pow2_nonneg)
    then have "round_half_even (x / pow2 (Ey - 52)) \<le> round_half_even (y / pow2 (Ey - 52))"
      by (rule round_half_even_mono)
    then have "(of_int (round_half_even (x / pow2 (Ey - 52))) :: rat)
                 \<le> of_int (round_half_even (y / pow2 (Ey - 52)))"
      by (simp only: of_int_le_iff)
    then have "of_int (round_half_even (x / pow2 (Ey - 52))) * pow2 (Ey - 52)
                 \<le> of_int (round_half_even (y / pow2 (Ey - 52))) * pow2 (Ey - 52)"
      by (rule mult_right_mono) simp
    then show ?thesis unfolding rnd_pos_eq [OF assms(1)] rnd_pos_eq [OF y] ux uy True .
  next
    case False
    with le have lt: "Ex + 1 \<le> Ey" by simp
    then have "- 1022 < Ey" by (simp add: Ex_def)
    then have ey: "Ey = binade y" "- 1022 \<le> binade y" by (simp_all add: Ey_def max_def split: if_splits)
    have "rnd x \<le> pow2 (Ex + 1)" unfolding Ex_def by (rule rnd_upper [OF assms(1)])
    also have "\<dots> \<le> pow2 Ey" using lt by (rule pow2_mono)
    also have "\<dots> \<le> rnd y" unfolding ey(1) by (rule rnd_lower [OF y ey(2)])
    finally show ?thesis .
  qed
qed

lemma rnd_eval:
  assumes "0 < x" "pow2 e \<le> x" "x < pow2 (e + 1)" "- 1022 \<le> e"
    and "of_int n - 1 / 2 < x / pow2 (e - 52)" "x / pow2 (e - 52) < of_int n + 1 / 2"
  shows "rnd x = of_int n * pow2 (e - 52)"
proof -
  from binade_unique [OF assms(1-3)] assms(4) assms(1)
  have u: "ulp x = pow2 (e - 52)" by (simp add: ulp_def)
  from round_half_even_near [OF assms(5,6)]
  show ?thesis unfolding rnd_pos_eq [OF assms(1)] u by simp
qed

lemma rnd_eval_tie:
  assumes "0 < x" "pow2 e \<le> x" "x < pow2 (e + 1)" "- 1022 \<le> e"
    and "x / pow2 (e - 52) = of_int n + 1 / 2"
  shows "rnd x = of_int (if even n then n else n + 1) * pow2 (e - 52)"
proof -
  from binade_unique [OF assms(1-3)] assms(4) assms(1)
  have u: "ulp x = pow2 (e - 52)" by (simp add: ulp_def)
  from round_half_even_tie [OF assms(5)]
  show ?thesis unfolding rnd_pos_eq [OF assms(1)] u by simp
qed

lemma fl_finite: "\<bar>rnd x\<bar> < 2 ^ 1024 \<Longrightarrow> fl x = Fin (rnd x)"
  by (simp add: fl_def Let_def)

lemma fl_FinD: "fl x = Fin y \<Longrightarrow> rnd x = y \<and> \<bar>y\<bar> < 2 ^ 1024"
  by (auto simp: fl_def Let_def split: if_splits)

lemma fl_between:
  assumes "0 < lo" "lo \<le> x" "x \<le> hi" "fl lo = Fin l" "fl hi = Fin h"
  shows "\<exists>y. fl x = Fin y \<and> l \<le> y \<and> y \<le> h"
proof -
  from assms have x: "0 < x" by simp
  from fl_FinD [OF assms(4)] have l: "rnd lo = l" by simp
  from fl_FinD [OF assms(5)] have h: "rnd hi = h" "\<bar>h\<bar> < 2 ^ 1024" by simp_all
  from rnd_mono [OF assms(1,2)] l have 1: "l \<le> rnd x" by simp
  from rnd_mono [OF x assms(3)] h have 2: "rnd x \<le> h" by simp
  from rnd_nonneg [OF x] 2 h(2) have "\<bar>rnd x\<bar> < 2 ^ 1024" by simp
  from fl_finite [OF this] 1 2 show ?thesis by simp
qed

text \<open>
  Evaluation of \<open>fl\<close> at a given number: the binary exponent \<open>e\<close> and the significand
  \<open>n\<close> are supplied, and the side conditions are decided by arithmetic on numerals.
\<close>

lemma fl_evalI:
  assumes "0 < x" "pow2 e \<le> x" "x < pow2 (e + 1)" "- 1022 \<le> e" "e \<le> 1022"
    and "of_int n - 1 / 2 < x / pow2 (e - 52)" "x / pow2 (e - 52) < of_int n + 1 / 2"
    and "y = of_int n * pow2 (e - 52)"
  shows "fl x = Fin y"
proof -
  from binade_unique [OF assms(1-3)] have b: "binade x = e" .
  from rnd_upper [OF assms(1)] b assms(4) have "rnd x \<le> pow2 (e + 1)" by (simp add: max_def)
  also from assms(5) have "\<dots> \<le> pow2 1023" by (intro pow2_mono) simp
  also have "\<dots> < 2 ^ 1024" by (simp add: pow2_def)
  finally have "rnd x < 2 ^ 1024" .
  with rnd_nonneg [OF assms(1)] have "\<bar>rnd x\<bar> < 2 ^ 1024" by simp
  from fl_finite [OF this] rnd_eval [OF assms(1-4) assms(6,7)] assms(8) show ?thesis by simp
qed

lemma fl_eval_tieI:
  assumes "0 < x" "pow2 e \<le> x" "x < pow2 (e + 1)" "- 1022 \<le> e" "e \<le> 1022"
    and "x / pow2 (e - 52) = of_int n + 1 / 2"
    and "y = of_int (if even n then n else n + 1) * pow2 (e - 52)"
  shows "fl x = Fin y"
proof -
  from binade_unique [OF assms(1-3)] have b: "binade x = e" .
  from rnd_upper [OF assms(1)] b assms(4) have "rnd x \<le> pow2 (e + 1)" by (simp add: max_def)
  also from assms(5) have "\<dots> \<le> pow2 1023" by (intro pow2_mono) simp
  also have "\<dots> < 2 ^ 1024" by (simp add: pow2_def)
  finally have "rnd x < 2 ^ 1024" .
  with rnd_nonneg [OF assms(1)] have "\<bar>rnd x\<bar> < 2 ^ 1024" by simp
  from fl_finite [OF this] rnd_eval_tie [OF assms(1-4) assms(6)] assms(7) show ?thesis by simp
qed

lemma fl_quality_weight: "fl (4 / 10) = Fin (3602879701896397 / 2 ^ 53)"
  by (rule fl_evalI [where e = "-2" and n = "7205759403792794"]) (simp_all add: pow2_def)

lemma fl_security_weight: "fl (35 / 100) = Fin (3152519739159347 / 2 ^ 53)"
  by (rule fl_evalI [where e = "-2" and n = "6305039478318694"]) (simp_all add: pow2_def)

lemma fl_performance_weight: "fl (25 / 100) = Fin (1 / 2 ^ 2)"
  by (rule fl_evalI [where e = "-2" and n = "4503599627370496"]) (simp_all add: pow2_def)

lemma float_of_int_1: "float_of_int 1 = Fin 1"
  unfolding float_of_int_def
  by (rule fl_evalI [where e = "0" and n = "4503599627370496"]) (simp_all add: pow2_def)

lemma float_of_int_4: "float_of_int 4 = Fin 4"
  unfolding float_of_int_def
  by (rule fl_evalI [where e = "2" and n = "4503599627370496"]) (simp_all add: pow2_def)

lemma float_of_int_6: "float_of_int 6 = Fin 6"
  unfolding float_of_int_def
  by (rule fl_evalI [where e = "2" and n = "6755399441055744"]) (simp_all add: pow2_def)

lemma float_of_int_8: "float_of_int 8 = Fin 8"
  unfolding float_of_int_def
  by (rule fl_evalI [where e = "3" and n = "4503599627370496"]) (simp_all add: pow2_def)

lemma float_of_int_10: "float_of_int 10 = Fin 10"
  unfolding float_of_int_def
  by (rule fl_evalI [where e = "3" and n = "5629499534213120"]) (simp_all add: pow2_def)

lemma example_quality_term: "fmul (Fin 8) (Fin (3602879701896397 / 2 ^ 53)) = Fin (3602879701896397 / 2 ^ 50)"
  unfolding fmul.simps
  by (rule fl_evalI [where e = "1" and n = "7205759403792794"]) (simp_all add: pow2_def)

lemma example_security_term: "fmul (Fin 6) (Fin (3152519739159347 / 2 ^ 53)) = Fin (1182194902184755 / 2 ^ 49)"
  unfolding fmul.simps
  by (rule fl_eval_tieI [where e = "1" and n = "4728779608739020"]) (simp_all add: pow2_def)

lemma example_performance_term: "fmul (Fin 4) (Fin (1 / 2 ^ 2)) = Fin 1"
  unfolding fmul.simps
  by (rule fl_evalI [where e = "0" and n = "4503599627370496"]) (simp_all add: pow2_def)

lemma example_first_sum: "fadd (Fin (3602879701896397 / 2 ^ 50)) (Fin (1182194902184755 / 2 ^ 49)) = Fin (5967269506265907 / 2 ^ 50)"
  unfolding fadd.simps
  by (rule fl_evalI [where e = "2" and n = "5967269506265907"]) (simp_all add: pow2_def)

lemma example_second_sum: "fadd (Fin (5967269506265907 / 2 ^ 50)) (Fin 1) = Fin (7093169413108531 / 2 ^ 50)"
  unfolding fadd.simps
  by (rule fl_evalI [where e = "2" and n = "7093169413108531"]) (simp_all add: pow2_def)

lemma example_rounded: "py_round1 (Fin (7093169413108531 / 2 ^ 50)) = Fin (7093169413108531 / 2 ^ 50)"
proof -
  have r: "round_half_even (7093169413108531 / 2 ^ 50 * 10) = 63"
    by (rule round_half_even_near) simp_all
  have "fl (of_int 63 / 10) = Fin (7093169413108531 / 2 ^ 50)"
    by (rule fl_evalI [where e = "2" and n = "7093169413108531"]) (simp_all add: pow2_def)
  then show ?thesis unfolding py_round1.simps r .
qed

lemma fl_6_3: "fl (63 / 10) = Fin (7093169413108531 / 2 ^ 50)"
  by (rule fl_evalI [where e = "2" and n = "7093169413108531"]) (simp_all add: pow2_def)

lemma quality_term_low: "fmul (Fin 1) (Fin (3602879701896397 / 2 ^ 53)) = Fin (3602879701896397 / 2 ^ 53)"
  unfolding fmul.simps
  by (rule fl_evalI [where e = "-2" and n = "7205759403792794"]) (simp_all add: pow2_def)

lemma quality_term_high: "fmul (Fin 10) (Fin (3602879701896397 / 2 ^ 53)) = Fin 4"
  unfolding fmul.simps
  by (rule fl_evalI [where e = "2" and n = "4503599627370496"]) (simp_all add: pow2_def)

lemma security_term_low: "fmul (Fin 1) (Fin (3152519739159347 / 2 ^ 53)) = Fin (3152519739159347 / 2 ^ 53)"
  unfolding fmul.simps
  by (rule fl_evalI [where e = "-2" and n = "6305039478318694"]) (simp_all add: pow2_def)

lemma security_term_high: "fmul (Fin 10) (Fin (3152519739159347 / 2 ^ 53)) = Fin (7 / 2 ^ 1)"
  unfolding fmul.simps
  by (rule fl_eval_tieI [where e = "1" and n = "7881299347898367"]) (simp_all add: pow2_def)

lemma performance_term_low: "fmul (Fin 1) (Fin (1 / 2 ^ 2)) = Fin (1 / 2 ^ 2)"
  unfolding fmul.simps
  by (rule fl_evalI [where e = "-2" and n = "4503599627370496"]) (simp_all add: pow2_def)

lemma performance_term_high: "fmul (Fin 10) (Fin (1 / 2 ^ 2)) = Fin (5 / 2 ^ 1)"
  unfolding fmul.simps
  by (rule fl_evalI [where e = "1" and n = "5629499534213120"]) (simp_all add: pow2_def)

lemma first_sum_low: "fadd (Fin (3602879701896397 / 2 ^ 53)) (Fin (3152519739159347 / 2 ^ 53)) = Fin (3 / 2 ^ 2)"
  unfolding fadd.simps
  by (rule fl_evalI [where e = "-1" and n = "6755399441055744"]) (simp_all add: pow2_def)

lemma first_sum_high: "fadd (Fin 4) (Fin (7 / 2 ^ 1)) = Fin (15 / 2 ^ 1)"
  unfolding fadd.simps
  by (rule fl_evalI [where e = "2" and n = "8444249301319680"]) (simp_all add: pow2_def)

lemma second_sum_low: "fadd (Fin (3 / 2 ^ 2)) (Fin (1 / 2 ^ 2)) = Fin 1"
  unfolding fadd.simps
  by (rule fl_evalI [where e = "0" and n = "4503599627370496"]) (simp_all add: pow2_def)

lemma second_sum_high: "fadd (Fin (15 / 2 ^ 1)) (Fin (5 / 2 ^ 1)) = Fin 10"
  unfolding fadd.simps
  by (rule fl_evalI [where e = "3" and n = "5629499534213120"]) (simp_all add: pow2_def)

lemma fl_1: "fl 1 = Fin 1"
  by (rule fl_evalI [where e = "0" and n = "4503599627370496"]) (simp_all add: pow2_def)

lemma fl_10: "fl 10 = Fin 10"
  by (rule fl_evalI [where e = "3" and n = "5629499534213120"]) (simp_all add: pow2_def)

section \<open>The weighted sum under the default weights\<close>

lemma default_weights_values:
  "quality default_score_weights = Fin (3602879701896397 / 2 ^ 53)"
  "security default_score_weights = Fin (3152519739159347 / 2 ^ 53)"
  "performance default_score_weights = Fin (1 / 2 ^ 2)"
  by (simp_all only: default_score_weights_def score_weights.simps
        fl_quality_weight fl_security_weight fl_performance_weight)

lemma weighted_overall_example:
  assumes "score_get m ''Quality'' = 8" "score_get m ''Security'' = 6"
    "score_get m ''Performance'' = 4"
  shows "weighted_overall default_score_weights m = Fin (7093169413108531 / 2 ^ 50)"
  unfolding weighted_overall_def assms default_weights_values
    float_of_int_8 float_of_int_6 float_of_int_4
    example_quality_term example_security_term example_performance_term
    example_first_sum example_second_sum example_rounded ..

lemma float_of_int_between:
  assumes "1 \<le> q" "q \<le> 10"
  shows "\<exists>y. float_of_int q = Fin y \<and> 1 \<le> y \<and> y \<le> 10"
  unfolding float_of_int_def
proof (rule fl_between [OF _ _ _ fl_1 fl_10])
  show "(0::rat) < 1" by simp
  from assms(1) show "(1::rat) \<le> of_int q" by simp
  from assms(2) show "(of_int q :: rat) \<le> 10" by simp
qed

lemma fmul_between:
  assumes "1 \<le> y" "y \<le> 10" "0 < w"
    and "fmul (Fin 1) (Fin w) = Fin l" "fmul (Fin 10) (Fin w) = Fin h"
  shows "\<exists>a. fmul (Fin y) (Fin w) = Fin a \<and> l \<le> a \<and> a \<le> h"
  unfolding fmul.simps
proof (rule fl_between)
  from assms(3) show "0 < 1 * w" by simp
  from assms(1,3) show "1 * w \<le> y * w" by (simp add: mult_right_mono)
  from assms(2,3) show "y * w \<le> 10 * w" by (simp add: mult_right_mono)
  from assms(4) show "fl (1 * w) = Fin l" by (simp only: fmul.simps)
  from assms(5) show "fl (10 * w) = Fin h" by (simp only: fmul.simps)
qed

lemma fadd_between:
  assumes "0 < l1" "l1 \<le> a" "a \<le> h1" "0 < l2" "l2 \<le> b" "b \<le> h2"
    and "fadd (Fin l1) (Fin l2) = Fin l" "fadd (Fin h1) (Fin h2) = Fin h"
  shows "\<exists>c. fadd (Fin a) (Fin b) = Fin c \<and> l \<le> c \<and> c \<le> h"
  unfolding fadd.simps
proof (rule fl_between)
  from assms(1,4) show "0 < l1 + l2" by simp
  from assms(2,5) show "l1 + l2 \<le> a + b" by simp
  from assms(3,6) show "a + b \<le> h1 + h2" by simp
  from assms(7) show "fl (l1 + l2) = Fin l" by (simp only: fadd.simps)
  from assms(8) show "fl (h1 + h2) = Fin h" by (simp only: fadd.simps)
qed

lemma py_round1_between:
  assumes "1 \<le> x" "x \<le> 10"
  shows "\<exists>y. py_round1 (Fin x) = Fin y \<and> 1 \<le> y \<and> y \<le> 10"
proof -
  define k where "k = round_half_even (x * 10)"
  from assms(1) have "of_int 10 \<le> x * 10" by simp
  from round_half_even_mono [OF this] have lo: "10 \<le> k" by (simp only: k_def round_half_even_of_int)
  from assms(2) have "x * 10 \<le> of_int 100" by simp
  from round_half_even_mono [OF this] have hi: "k \<le> 100" by (simp only: k_def round_half_even_of_int)
  have "\<exists>y. fl (of_int k / 10) = Fin y \<and> 1 \<le> y \<and> y \<le> 10"
  proof (rule fl_between [OF _ _ _ fl_1 fl_10])
    show "(0::rat) < 1" by simp
    from lo have "(of_int 10 :: rat) \<le> of_int k" by (simp only: of_int_le_iff)
    then show "(1::rat) \<le> of_int k / 10" by simp
    from hi have "(of_int k :: rat) \<le> of_int 100" by (simp only: of_int_le_iff)
    then show "(of_int k :: rat) / 10 \<le> 10" by simp
  qed
  then show ?thesis by (simp only: py_round1.simps k_def)
qed

lemma weighted_overall_between:
  assumes q: "1 \<le> score_get m ''Quality''" "score_get m ''Quality'' \<le> 10"
    and s: "1 \<le> score_get m ''Security''" "score_get m ''Security'' \<le> 10"
    and p: "1 \<le> score_get m ''Performance''" "score_get m ''Performance'' \<le> 10"
  shows "\<exists>y. weighted_overall default_score_weights m = Fin y \<and> 1 \<le> y \<and> y \<le> 10"
proof -
  from float_of_int_between [OF q] obtain fq where
    fq: "float_of_int (score_get m ''Quality'') = Fin fq" "1 \<le> fq" "fq \<le> 10" by blast
  from float_of_int_between [OF s] obtain fs where
    fs: "float_of_int (score_get m ''Security'') = Fin fs" "1 \<le> fs" "fs \<le> 10" by blast
  from float_of_int_between [OF p] obtain fp where
    fp: "float_of_int (score_get m ''Performance'') = Fin fp" "1 \<le> fp" "fp \<le> 10" by blast
  from fmul_between [OF fq(2,3) _ quality_term_low quality_term_high] obtain a where
    a: "fmul (Fin fq) (Fin (3602879701896397 / 2 ^ 53)) = Fin a" "3602879701896397 / 2 ^ 53 \<le> a" "a \<le> 4" by auto
  from fmul_between [OF fs(2,3) _ security_term_low security_term_high] obtain b where
    b: "fmul (Fin fs) (Fin (3152519739159347 / 2 ^ 53)) = Fin b" "3152519739159347 / 2 ^ 53 \<le> b" "b \<le> 7 / 2 ^ 1" by auto
  from fmul_between [OF fp(2,3) _ performance_term_low performance_term_high] obtain c where
    c: "fmul (Fin fp) (Fin (1 / 2 ^ 2)) = Fin c" "1 / 2 ^ 2 \<le> c" "c \<le> 5 / 2 ^ 1" by auto
  from fadd_between [OF _ a(2,3) _ b(2,3) first_sum_low first_sum_high] obtain ab where
    ab: "fadd (Fin a) (Fin b) = Fin ab" "3 / 2 ^ 2 \<le> ab" "ab \<le> 15 / 2 ^ 1" by auto
  from fadd_between [OF _ ab(2,3) _ c(2,3) second_sum_low second_sum_high] obtain t where
    t: "fadd (Fin ab) (Fin c) = Fin t" "1 \<le> t" "t \<le> 10" by auto
  from py_round1_between [OF t(2,3)] show ?thesis
    unfolding weighted_overall_def default_weights_values fq(1) fs(1) fp(1) a(1) b(1) c(1) ab(1) t(1) .
qed

lemma float_of_int_2: "float_of_int 2 = Fin 2"
  unfolding float_of_int_def
  by (rule fl_evalI [where e = "1" and n = "4503599627370496"]) (simp_all add: pow2_def)

lemma tie_performance_term: "fmul (Fin 2) (Fin (1 / 2 ^ 2)) = Fin (1 / 2 ^ 1)"
  unfolding fmul.simps
  by (rule fl_evalI [where e = "-1" and n = "4503599627370496"]) (simp_all add: pow2_def)

lemma tie_second_sum: "fadd (Fin (3 / 2 ^ 2)) (Fin (1 / 2 ^ 1)) = Fin (5 / 2 ^ 2)"
  unfolding fadd.simps
  by (rule fl_evalI [where e = "0" and n = "5629499534213120"]) (simp_all add: pow2_def)

lemma fl_1_2: "fl (12 / 10) = Fin (5404319552844595 / 2 ^ 52)"
  by (rule fl_evalI [where e = "0" and n = "5404319552844595"]) (simp_all add: pow2_def)

lemma tie_rounded: "py_round1 (Fin (5 / 2 ^ 2)) = Fin (5404319552844595 / 2 ^ 52)"
proof -
  have r: "round_half_even (5 / 2 ^ 2 * 10) = 12"
    using round_half_even_tie [of "5 / 2 ^ 2 * 10" 12] by simp
  have "fl (of_int 12 / 10) = Fin (5404319552844595 / 2 ^ 52)"
    by (rule fl_evalI [where e = "0" and n = "5404319552844595"]) (simp_all add: pow2_def)
  then show ?thesis unfolding py_round1.simps r .
qed

lemma weighted_overall_unfold:
  "weighted_overall w m
     = py_round1 (weighted_float_sum w (score_get m ''Quality'') (score_get m ''Security'')
                    (score_get m ''Performance''))"
  by (simp only: weighted_overall_def weighted_float_sum_def)

lemma example_float_sum:
  "weighted_float_sum default_score_weights 8 6 4 = Fin (7093169413108531 / 2 ^ 50)"
  unfolding weighted_float_sum_def default_weights_values
    float_of_int_8 float_of_int_6 float_of_int_4
    example_quality_term example_security_term example_performance_term
    example_first_sum example_second_sum ..

lemma tie_float_sum:
  "weighted_float_sum default_score_weights 1 1 2 = Fin (5 / 2 ^ 2)"
  unfolding weighted_float_sum_def default_weights_values
    float_of_int_1 float_of_int_2
    quality_term_low security_term_low tie_performance_term
    first_sum_low tie_second_sum ..

section \<open>Claims\<close>

subsection \<open>C1: the keys of the normalized scores\<close>

text \<open>
  C1 states that the normalized scores have exactly the keys Quality, Security and
  Performance, any other key of the raw mapping being dropped. The loop of
  \<^verbatim>\<open>_normalize_scores\<close> assigns \<^verbatim>\<open>normalized[key]\<close> for every key whose value is a
  number, whatever the key is: on the raw scores \<^verbatim>\<open>{"Style": 7}\<close> it returns a mapping that
  has the key \<^verbatim>\<open>Style\<close>.
\<close>

theorem normalize_scores_unknown_key_counterexample:
  "\<not> isl (normalize_scores (JDict [(''Style'', JInt 7)]))
   \<and> ''Style'' \<in> dom (projr (normalize_scores (JDict [(''Style'', JInt 7)])))
   \<and> ''Style'' \<notin> {''Quality'', ''Security'', ''Performance''}"
  by (simp add: initial_scores_def)

text \<open>
  C1, as amended: whenever \<^verbatim>\<open>_normalize_scores\<close> returns, the raw scores are a mapping, the
  result contains the three keys Quality, Security and Performance, and its keys are
  exactly these three together with every key of the raw mapping whose value passes the
  \<^verbatim>\<open>isinstance(value, (int, float))\<close> test. Keys with any other value are dropped.
\<close>

theorem normalize_scores_keys:
  assumes "normalize_scores raw = Inr m"
  shows "{''Quality'', ''Security'', ''Performance''} \<subseteq> dom m
         \<and> (\<exists>kvs. raw = JDict kvs
               \<and> dom m = {''Quality'', ''Security'', ''Performance''}
                          \<union> {k. \<exists>v. (k, v) \<in> set kvs \<and> is_int_or_float v})"
proof -
  from assms obtain kvs where raw: "raw = JDict kvs" by (cases raw) simp_all
  with assms have "normalize_loop kvs initial_scores = Inr m" by simp
  from normalize_loop_dom [OF this]
  have d: "dom m = {''Quality'', ''Security'', ''Performance''}
                   \<union> {k. \<exists>v. (k, v) \<in> set kvs \<and> is_int_or_float v}"
    by (simp add: initial_scores_def insert_commute)
  then show ?thesis using raw by blast
qed

theorem normalize_scores_keys_witness:
  "normalize_scores (JDict [(''Quality'', JInt 7), (''Note'', JStr ''x'')])
     = Inr (initial_scores(''Quality'' \<mapsto> 7))
   \<and> {''Quality'', ''Security'', ''Performance''} \<subseteq> dom (initial_scores(''Quality'' \<mapsto> 7))"
proof -
  have e: "normalize_scores (JDict [(''Quality'', JInt 7), (''Note'', JStr ''x'')])
     = Inr (initial_scores(''Quality'' \<mapsto> 7))" by simp
  from normalize_scores_keys [OF e]
  have "{''Quality'', ''Security'', ''Performance''} \<subseteq> dom (initial_scores(''Quality'' \<mapsto> 7))"
    by (rule conjunct1)
  with e show ?thesis by (rule conjI)
qed

subsection \<open>C6: the error result\<close>

text \<open>
  C6: \<^verbatim>\<open>_create_error_result(message)\<close> returns the fixed shape: overall score 0; the three
  scores Quality, Security and Performance, all 0; exactly one issue, of type Quality and
  severity High, with the description "Analysis failed: " followed by the message and with
  line and code null; the two fixed recommendations; and the summary
  "Analysis failed due to: " followed by the message.
\<close>

theorem create_error_result_shape:
  "overall_score (create_error_result message) = JInt 0
   \<and> scores (create_error_result message) ''Quality'' = Some 0
   \<and> scores (create_error_result message) ''Security'' = Some 0
   \<and> scores (create_error_result message) ''Performance'' = Some 0
   \<and> dom (scores (create_error_result message)) = {''Quality'', ''Security'', ''Performance''}
   \<and> issues (create_error_result message) =
         [\<lparr>type = JStr ''Quality'', severity = JStr ''High'',
           description = ''Analysis failed: '' @ message, line = JNull, code = JNull\<rparr>]
   \<and> length (issues (create_error_result message)) = 1
   \<and> recommendations (create_error_result message) =
         JList [JStr ''Please check your code syntax and try again'',
                JStr ''Ensure your OpenAI API key is valid and has sufficient credits'']
   \<and> summary (create_error_result message) = JStr (''Analysis failed due to: '' @ message)"
  by (simp add: create_error_result_def insert_commute)

theorem create_error_result_shape_witness:
  "overall_score (create_error_result ''timeout'') = JInt 0
   \<and> summary (create_error_result ''timeout'') = JStr ''Analysis failed due to: timeout''"
  using create_error_result_shape [of "''timeout''"] by simp

subsection \<open>C5: validation of the issues\<close>

lemma in_str_list_iff: "in_str_list v xs \<longleftrightarrow> v \<in> JStr ` set xs"
  by (cases v) auto

lemma validated_issue_spec: "validated_issue repr d = issue_of_spec repr d"
  by (simp add: validated_issue_def issue_of_spec_def in_str_list_iff Let_def)

lemma entry_of_spec_eq:
  "(\<lambda>v. case v of JDict d \<Rightarrow> Some (validated_issue repr d) | _ \<Rightarrow> None) = entry_of_spec repr"
  by (rule ext) (simp add: entry_of_spec_def validated_issue_spec split: json.splits)

text \<open>
  C5: on every sequence of raw issues, \<^verbatim>\<open>_validate_issues\<close> returns the reshaped mapping
  entries in their original order and nothing for the other entries, so that the result
  is as long as the number of mapping entries; a type outside Quality, Security,
  Performance becomes Quality and a severity outside Low, Medium, High, Critical becomes
  Medium.
\<close>

theorem validate_issues_list:
  "validate_issues repr (JList xs) = Inr (List.map_filter (entry_of_spec repr) xs)
   \<and> length (List.map_filter (entry_of_spec repr) xs) = length (filter is_dict xs)"
proof -
  have a: "validate_issues repr (JList xs) = Inr (List.map_filter (entry_of_spec repr) xs)"
    by (simp add: validate_issues_def validate_loop_map_filter entry_of_spec_eq)
  have b: "length (List.map_filter (entry_of_spec repr) xs) = length (filter is_dict xs)"
    by (induction xs) (simp_all add: List.map_filter_simps entry_of_spec_def split: json.splits)
  from a b show ?thesis by (rule conjI)
qed

theorem validate_issues_list_witness:
  "validate_issues (\<lambda>v. [])
     (JList [JStr ''not a mapping'',
             JDict [(''type'', JStr ''Unknown''), (''severity'', JStr ''Blocker'')],
             JDict [(''type'', JStr ''Security''), (''severity'', JStr ''Critical''),
                    (''description'', JStr ''eval on input''), (''line'', JInt 3)]])
   = Inr [\<lparr>type = JStr ''Quality'', severity = JStr ''Medium'',
            description = ''No description provided'', line = JNull, code = JNull\<rparr>,
          \<lparr>type = JStr ''Security'', severity = JStr ''Critical'',
            description = ''eval on input'', line = JInt 3, code = JNull\<rparr>]"
  using validate_issues_list [of "\<lambda>v. []" "[JStr ''not a mapping'',
             JDict [(''type'', JStr ''Unknown''), (''severity'', JStr ''Blocker'')],
             JDict [(''type'', JStr ''Security''), (''severity'', JStr ''Critical''),
                    (''description'', JStr ''eval on input''), (''line'', JInt 3)]]"]
  by (simp add: List.map_filter_simps entry_of_spec_def issue_of_spec_def dict_get_def)

subsection \<open>C7: the recommendations\<close>

text \<open>
  C7: whenever \<^verbatim>\<open>_process_analysis_result\<close> returns, the raw reply is a mapping; if its
  \<^verbatim>\<open>recommendations\<close> value (the empty sequence when absent) is a single string, the
  result holds the one-element sequence of that string, and otherwise it holds the value
  unchanged, whatever it is.
\<close>

theorem recommendations_wrapped:
  assumes "process_analysis_result self repr raw = Inr r"
  shows "\<exists>d. raw = JDict d
           \<and> (\<forall>s. dict_get d ''recommendations'' (JList []) = JStr s
                  \<longrightarrow> recommendations r = JList [JStr s])
           \<and> ((\<forall>s. dict_get d ''recommendations'' (JList []) \<noteq> JStr s)
                  \<longrightarrow> recommendations r = dict_get d ''recommendations'' (JList []))"
proof -
  from assms obtain d where raw: "raw = JDict d" by (cases raw) simp_all
  let ?v = "dict_get d ''recommendations'' (JList [])"
  from assms raw
  have rec: "recommendations r = (case ?v of JStr s \<Rightarrow> JList [JStr s] | _ \<Rightarrow> ?v)"
    by (auto simp: Let_def split: sum.splits)
  have a: "\<forall>s. ?v = JStr s \<longrightarrow> recommendations r = JList [JStr s]"
    using rec by simp
  have b: "(\<forall>s. ?v \<noteq> JStr s) \<longrightarrow> recommendations r = ?v"
    using rec by (cases ?v) simp_all
  from raw a b show ?thesis by blast
qed


theorem recommendations_wrapped_witness:
  "process_analysis_result \<lparr>cfg = default_config\<rparr> (\<lambda>v. [])
     (JDict [(''overall_score'', JInt 7), (''recommendations'', JStr ''fix it'')])
   = Inr \<lparr>overall_score = JInt 7, scores = initial_scores, issues = [],
          recommendations = JList [JStr ''fix it''], summary = JStr ''Analysis completed''\<rparr>
   \<and> recommendations \<lparr>overall_score = JInt 7, scores = initial_scores, issues = [],
          recommendations = JList [JStr ''fix it''], summary = JStr ''Analysis completed''\<rparr>
       = JList [JStr ''fix it'']
   \<and> process_analysis_result \<lparr>cfg = default_config\<rparr> (\<lambda>v. [])
     (JDict [(''overall_score'', JInt 7), (''recommendations'', JInt 42)])
   = Inr \<lparr>overall_score = JInt 7, scores = initial_scores, issues = [],
          recommendations = JInt 42, summary = JStr ''Analysis completed''\<rparr>
   \<and> recommendations \<lparr>overall_score = JInt 7, scores = initial_scores, issues = [],
          recommendations = JInt 42, summary = JStr ''Analysis completed''\<rparr>
       = JInt 42"
proof -
  have e1: "process_analysis_result \<lparr>cfg = default_config\<rparr> (\<lambda>v. [])
     (JDict [(''overall_score'', JInt 7), (''recommendations'', JStr ''fix it'')])
   = Inr \<lparr>overall_score = JInt 7, scores = initial_scores, issues = [],
          recommendations = JList [JStr ''fix it''], summary = JStr ''Analysis completed''\<rparr>"
    by (simp add: dict_get_def validate_issues_def)
  have e2: "process_analysis_result \<lparr>cfg = default_config\<rparr> (\<lambda>v. [])
     (JDict [(''overall_score'', JInt 7), (''recommendations'', JInt 42)])
   = Inr \<lparr>overall_score = JInt 7, scores = initial_scores, issues = [],
          recommendations = JInt 42, summary = JStr ''Analysis completed''\<rparr>"
    by (simp add: dict_get_def validate_issues_def)
  from recommendations_wrapped [OF e1]
  have r1: "recommendations \<lparr>overall_score = JInt 7, scores = initial_scores, issues = [],
          recommendations = JList [JStr ''fix it''], summary = JStr ''Analysis completed''\<rparr>
       = JList [JStr ''fix it'']"
    by (simp add: dict_get_def)
  from recommendations_wrapped [OF e2]
  have r2: "recommendations \<lparr>overall_score = JInt 7, scores = initial_scores, issues = [],
          recommendations = JInt 42, summary = JStr ''Analysis completed''\<rparr>
       = JInt 42"
    by (simp add: dict_get_def)
  from e1 r1 e2 r2 show ?thesis by (intro conjI)
qed

subsection \<open>C8: the user prompt\<close>

lemma analysis_aspects_spec:
  "analysis_aspects include_security include_performance include_style
     = aspects_of_spec include_security include_performance include_style"
  by (simp add: analysis_aspects_def aspects_of_spec_def)

lemma extension_map_nonempty: "map_of extension_map ext = Some l \<Longrightarrow> l \<noteq> []"
  by (auto simp: extension_map_def split: if_splits)

lemma detect_language_cases:
  "detect_language str_lower filename =
     (case map_of extension_map (str_lower (splitext_ext filename)) of
        None \<Rightarrow> ''python'' | Some l \<Rightarrow> l)"
  by (auto simp: detect_language_def get_file_extension_language_def
           dest: extension_map_nonempty split: option.splits)

lemma detect_language_upper_case: "detect_language ascii_lower ''main.PY'' = ''python''"
  by (simp add: detect_language_def get_file_extension_language_def splitext_ext_def
        rfind_def ascii_lower_def ascii_lower_char_def extension_map_def)

lemma detect_language_path: "detect_language ascii_lower ''src/lib.rs'' = ''rust''"
  by (simp add: detect_language_def get_file_extension_language_def splitext_ext_def
        rfind_def ascii_lower_def ascii_lower_char_def extension_map_def)

lemma splitext_leading_dot: "splitext_ext ''.py'' = []"
  by (simp add: splitext_ext_def rfind_def)

text \<open>
  The file name \<^verbatim>\<open>Main.\<close> followed by the Kelvin sign and \<^verbatim>\<open>t\<close>: its extension is the dot, the
  three bytes of U+212A and \<^verbatim>\<open>t\<close>. Python lower-cases that extension to \<^verbatim>\<open>.kt\<close>, and for
  every \<open>str_lower\<close> that does so the detected language is kotlin.
\<close>

lemma detect_language_kelvin:
  assumes "str_lower [CHR ''.'', CHR 0xE2, CHR 0x84, CHR 0xAA, CHR ''t''] = ''.kt''"
  shows "detect_language str_lower (''Main.'' @ [CHR 0xE2, CHR 0x84, CHR 0xAA, CHR ''t'']) = ''kotlin''"
proof -
  have "splitext_ext (''Main.'' @ [CHR 0xE2, CHR 0x84, CHR 0xAA, CHR ''t''])
          = [CHR ''.'', CHR 0xE2, CHR 0x84, CHR 0xAA, CHR ''t'']"
    by (simp add: splitext_ext_def rfind_def)
  with assms show ?thesis
    by (simp add: detect_language_def get_file_extension_language_def extension_map_def)
qed

text \<open>
  C8: for every combination of the three booleans, the user prompt built for a file is the
  fixed text with the detected language, the file name, the comma-joined names of the
  enabled aspects (quality and style, security, performance, in this order) and the code
  inside a fenced block labelled with the detected language. With all three booleans
  false the joined list is empty and the prompt has the same shape. The detected language
  is "python" when the lower-cased extension is not in the extension map, and the mapped
  language otherwise, whatever function lower-cases the extension.
\<close>

theorem user_prompt_structure:
  \<open>build_analysis_prompt self code_text (detect_language str_lower filename) filename
       include_security include_performance include_style
     = ''Please analyze this '' @ detect_language str_lower filename @ '' code file ('' @ filename
         @ '') for ''
         @ join '', '' (aspects_of_spec include_security include_performance include_style)
         @ ''.\<newline>\<newline>Code to analyze:\<newline>```'' @ detect_language str_lower filename @ ''\<newline>''
         @ code_text @ ''\<newline>```\<newline>'' @ prompt_tail
   \<and> (\<not> include_security \<and> \<not> include_performance \<and> \<not> include_style
        \<longrightarrow> join '', '' (aspects_of_spec include_security include_performance include_style) = [])
   \<and> (map_of extension_map (str_lower (splitext_ext filename)) = None
        \<longrightarrow> detect_language str_lower filename = ''python'')
   \<and> (\<forall>l. map_of extension_map (str_lower (splitext_ext filename)) = Some l
        \<longrightarrow> detect_language str_lower filename = l)\<close>
proof -
  have a: \<open>build_analysis_prompt self code_text (detect_language str_lower filename) filename
       include_security include_performance include_style
     = ''Please analyze this '' @ detect_language str_lower filename @ '' code file ('' @ filename
         @ '') for ''
         @ join '', '' (aspects_of_spec include_security include_performance include_style)
         @ ''.\<newline>\<newline>Code to analyze:\<newline>```'' @ detect_language str_lower filename @ ''\<newline>''
         @ code_text @ ''\<newline>```\<newline>'' @ prompt_tail\<close>
    by (simp add: build_analysis_prompt_def analysis_aspects_spec)
  have b: "\<not> include_security \<and> \<not> include_performance \<and> \<not> include_style
        \<longrightarrow> join '', '' (aspects_of_spec include_security include_performance include_style) = []"
    by (simp add: aspects_of_spec_def)
  have c: "map_of extension_map (str_lower (splitext_ext filename)) = None
        \<longrightarrow> detect_language str_lower filename = ''python''"
    by (simp add: detect_language_cases)
  have d: "\<forall>l. map_of extension_map (str_lower (splitext_ext filename)) = Some l
        \<longrightarrow> detect_language str_lower filename = l"
    by (simp add: detect_language_cases)
  from a b c d show ?thesis by (intro conjI)
qed

theorem user_prompt_structure_witness:
  \<open>map_of extension_map (ascii_lower (splitext_ext ''notes.txt'')) = None
   \<and> build_analysis_prompt \<lparr>cfg = default_config\<rparr> ''x = 1'' (detect_language ascii_lower ''notes.txt'')
         ''notes.txt'' False False False
       = ''Please analyze this python code file (notes.txt) for .\<newline>\<newline>Code to analyze:\<newline>```python\<newline>x = 1\<newline>```\<newline>''
           @ prompt_tail
   \<and> map_of extension_map (ascii_lower (splitext_ext ''src/lib.RS'')) = Some ''rust''
   \<and> build_analysis_prompt \<lparr>cfg = default_config\<rparr> ''fn main() {}'' (detect_language ascii_lower ''src/lib.RS'')
         ''src/lib.RS'' True False True
       = ''Please analyze this rust code file (src/lib.RS) for code quality and style, security vulnerabilities.\<newline>\<newline>Code to analyze:\<newline>```rust\<newline>fn main() {}\<newline>```\<newline>''
           @ prompt_tail\<close>
proof -
  note t = user_prompt_structure [of "\<lparr>cfg = default_config\<rparr>" "''x = 1''" ascii_lower "''notes.txt''" False False False]
  have n: "map_of extension_map (ascii_lower (splitext_ext ''notes.txt'')) = None"
    by (simp add: splitext_ext_def rfind_def ascii_lower_def ascii_lower_char_def extension_map_def)
  from t have "map_of extension_map (ascii_lower (splitext_ext ''notes.txt'')) = None
        \<longrightarrow> detect_language ascii_lower ''notes.txt'' = ''python''"
    by (elim conjE)
  with n have l: "detect_language ascii_lower ''notes.txt'' = ''python''" by (elim impE)
  from t have a: \<open>build_analysis_prompt \<lparr>cfg = default_config\<rparr> ''x = 1''
       (detect_language ascii_lower ''notes.txt'') ''notes.txt'' False False False
     = ''Please analyze this '' @ detect_language ascii_lower ''notes.txt'' @ '' code file ('' @ ''notes.txt''
         @ '') for ''
         @ join '', '' (aspects_of_spec False False False)
         @ ''.\<newline>\<newline>Code to analyze:\<newline>```'' @ detect_language ascii_lower ''notes.txt'' @ ''\<newline>''
         @ ''x = 1'' @ ''\<newline>```\<newline>'' @ prompt_tail\<close>
    by (rule conjunct1)
  have b: \<open>build_analysis_prompt \<lparr>cfg = default_config\<rparr> ''x = 1'' (detect_language ascii_lower ''notes.txt'')
         ''notes.txt'' False False False
       = ''Please analyze this python code file (notes.txt) for .\<newline>\<newline>Code to analyze:\<newline>```python\<newline>x = 1\<newline>```\<newline>''
           @ prompt_tail\<close>
    using a unfolding l by (simp add: aspects_of_spec_def)
  note t' = user_prompt_structure [of "\<lparr>cfg = default_config\<rparr>" "''fn main() {}''" ascii_lower "''src/lib.RS''" True False True]
  have n': "map_of extension_map (ascii_lower (splitext_ext ''src/lib.RS'')) = Some ''rust''"
    by (simp add: splitext_ext_def rfind_def ascii_lower_def ascii_lower_char_def extension_map_def)
  from t' have "\<forall>l. map_of extension_map (ascii_lower (splitext_ext ''src/lib.RS'')) = Some l
        \<longrightarrow> detect_language ascii_lower ''src/lib.RS'' = l"
    by (elim conjE)
  with n' have l': "detect_language ascii_lower ''src/lib.RS'' = ''rust''" by blast
  from t' have a': \<open>build_analysis_prompt \<lparr>cfg = default_config\<rparr> ''fn main() {}''
       (detect_language ascii_lower ''src/lib.RS'') ''src/lib.RS'' True False True
     = ''Please analyze this '' @ detect_language ascii_lower ''src/lib.RS'' @ '' code file ('' @ ''src/lib.RS''
         @ '') for ''
         @ join '', '' (aspects_of_spec True False True)
         @ ''.\<newline>\<newline>Code to analyze:\<newline>```'' @ detect_language ascii_lower ''src/lib.RS'' @ ''\<newline>''
         @ ''fn main() {}'' @ ''\<newline>```\<newline>'' @ prompt_tail\<close>
    by (rule conjunct1)
  have b': \<open>build_analysis_prompt \<lparr>cfg = default_config\<rparr> ''fn main() {}'' (detect_language ascii_lower ''src/lib.RS'')
         ''src/lib.RS'' True False True
       = ''Please analyze this rust code file (src/lib.RS) for code quality and style, security vulnerabilities.\<newline>\<newline>Code to analyze:\<newline>```rust\<newline>fn main() {}\<newline>```\<newline>''
           @ prompt_tail\<close>
    using a' unfolding l' by (simp add: aspects_of_spec_def)
  from n b n' b' show ?thesis by (intro conjI)
qed

subsection \<open>C3: normalization never throws\<close>




lemma normalize_scores_known:
  assumes "normalize_scores sc = Inr m"
  shows "m ''Quality'' \<noteq> None \<and> m ''Security'' \<noteq> None \<and> m ''Performance'' \<noteq> None"
proof -
  from assms obtain kvs where "normalize_loop kvs initial_scores = Inr m"
    by (cases sc) simp_all
  from normalize_loop_dom [OF this]
  have "dom initial_scores \<subseteq> dom m" by (simp only: Un_upper1)
  moreover have "''Quality'' \<in> dom initial_scores" "''Security'' \<in> dom initial_scores"
    "''Performance'' \<in> dom initial_scores"
    by (simp_all add: initial_scores_def)
  ultimately have "''Quality'' \<in> dom m" "''Security'' \<in> dom m" "''Performance'' \<in> dom m"
    by blast+
  then show ?thesis by (simp only: domIff simp_thms)
qed







subsection \<open>C4: the values of the normalized scores\<close>

text \<open>
  C4 states that a numeric value between 1 and 10 under one of the three keys is left
  unchanged. \<^verbatim>\<open>_normalize_scores\<close> stores \<^verbatim>\<open>int(round(value))\<close>: the float 7.5 lies between 1
  and 10 and is stored as the int 8.
\<close>

theorem normalize_scores_float_counterexample:
  "\<not> isl (normalize_scores (JDict [(''Quality'', JFloat (Fin (15 / 2)))]))
   \<and> projr (normalize_scores (JDict [(''Quality'', JFloat (Fin (15 / 2)))])) ''Quality'' = Some 8
   \<and> (1 :: rat) \<le> 15 / 2 \<and> (15 / 2 :: rat) \<le> 10 \<and> rat_of_int 8 \<noteq> 15 / 2"
  by (simp add: round_half_even_tie [of "15 / 2" 7] initial_scores_def)

lemma initial_scores_known:
  "k \<in> {''Quality'', ''Security'', ''Performance''} \<Longrightarrow> initial_scores k = Some 5"
  by (auto simp: initial_scores_def)

text \<open>
  C4, as amended: whenever \<^verbatim>\<open>_normalize_scores\<close> returns on a raw mapping, then for each
  of the three keys: an int value is clamped into 1..10, so an int between 1 and 10 is
  left unchanged; a finite float value is rounded to the nearest int, a tie going to the
  even one, and then clamped into 1..10; a value that does not pass the
  \<^verbatim>\<open>isinstance(value, (int, float))\<close> test is ignored and the default 5 is kept, as it is
  when the key is absent. If the reply has no \<^verbatim>\<open>scores\<close> key and processing returns, the
  scores are Quality 5, Security 5, Performance 5.
\<close>

theorem normalize_scores_values:
  "(normalize_scores (JDict kvs) = Inr m \<and> distinct (map fst kvs)
      \<and> k \<in> {''Quality'', ''Security'', ''Performance''}
    \<longrightarrow> (\<forall>n. map_of kvs k = Some (JInt n) \<longrightarrow> m k = Some (max 1 (min 10 n)))
      \<and> (\<forall>n. map_of kvs k = Some (JInt n) \<and> 1 \<le> n \<and> n \<le> 10 \<longrightarrow> m k = Some n)
      \<and> (\<forall>x. map_of kvs k = Some (JFloat (Fin x))
             \<longrightarrow> m k = Some (max 1 (min 10 (round_half_even x))))
      \<and> (\<forall>v. map_of kvs k = Some v \<and> \<not> is_int_or_float v \<longrightarrow> m k = Some 5)
      \<and> (map_of kvs k = None \<longrightarrow> m k = Some 5))
   \<and> (process_analysis_result self repr (JDict d) = Inr r \<and> map_of d ''scores'' = None
    \<longrightarrow> scores r = initial_scores)"
proof -
  have first: "(\<forall>n. map_of kvs k = Some (JInt n) \<longrightarrow> m k = Some (max 1 (min 10 n)))
      \<and> (\<forall>n. map_of kvs k = Some (JInt n) \<and> 1 \<le> n \<and> n \<le> 10 \<longrightarrow> m k = Some n)
      \<and> (\<forall>x. map_of kvs k = Some (JFloat (Fin x))
             \<longrightarrow> m k = Some (max 1 (min 10 (round_half_even x))))
      \<and> (\<forall>v. map_of kvs k = Some v \<and> \<not> is_int_or_float v \<longrightarrow> m k = Some 5)
      \<and> (map_of kvs k = None \<longrightarrow> m k = Some 5)"
    if ret: "normalize_scores (JDict kvs) = Inr m" and dist: "distinct (map fst kvs)"
      and known: "k \<in> {''Quality'', ''Security'', ''Performance''}"
  proof -
    from ret have loop: "normalize_loop kvs initial_scores = Inr m" by simp
    note init = initial_scores_known [OF known]
    have entry: "m k = (if is_int_or_float v
            then (case py_round v of Inl e \<Rightarrow> None | Inr i \<Rightarrow> Some (max 1 (min 10 i)))
            else Some 5)" if "map_of kvs k = Some v" for v
      using normalize_loop_entry [OF loop dist map_of_SomeD [OF that]] init by simp
    have a: "\<forall>n. map_of kvs k = Some (JInt n) \<longrightarrow> m k = Some (max 1 (min 10 n))"
      using entry by simp
    have b: "\<forall>n. map_of kvs k = Some (JInt n) \<and> 1 \<le> n \<and> n \<le> 10 \<longrightarrow> m k = Some n"
      using entry by simp
    have c: "\<forall>x. map_of kvs k = Some (JFloat (Fin x))
             \<longrightarrow> m k = Some (max 1 (min 10 (round_half_even x)))"
      using entry by simp
    have d: "\<forall>v. map_of kvs k = Some v \<and> \<not> is_int_or_float v \<longrightarrow> m k = Some 5"
      using entry by simp
    have e: "map_of kvs k = None \<longrightarrow> m k = Some 5"
    proof
      assume "map_of kvs k = None"
      then have "k \<notin> fst ` set kvs" by (simp add: map_of_eq_None_iff)
      from normalize_loop_absent [OF loop this] init show "m k = Some 5" by simp
    qed
    from a b c d e show ?thesis by (intro conjI)
  qed
  have second: "scores r = initial_scores"
    if "process_analysis_result self repr (JDict d) = Inr r" "map_of d ''scores'' = None"
    using that by (auto simp: dict_get_def Let_def split: sum.splits)
  from first second show ?thesis by blast
qed


theorem normalize_scores_values_witness:
  "normalize_scores (JDict [(''Quality'', JInt 8), (''Security'', JFloat (Fin (5 / 2))),
      (''Performance'', JStr ''high'')]) = Inr (initial_scores(''Quality'' \<mapsto> 8, ''Security'' \<mapsto> 2))
   \<and> distinct (map fst [(''Quality'', JInt 8), (''Security'', JFloat (Fin (5 / 2))),
      (''Performance'', JStr ''high'')])
   \<and> (initial_scores(''Quality'' \<mapsto> 8, ''Security'' \<mapsto> 2)) ''Quality'' = Some 8
   \<and> (initial_scores(''Quality'' \<mapsto> 8, ''Security'' \<mapsto> 2)) ''Security'' = Some 2
   \<and> (initial_scores(''Quality'' \<mapsto> 8, ''Security'' \<mapsto> 2)) ''Performance'' = Some 5
   \<and> normalize_scores (JDict [(''Quality'', JInt 12)]) = Inr (initial_scores(''Quality'' \<mapsto> 10))
   \<and> (initial_scores(''Quality'' \<mapsto> 10)) ''Quality'' = Some 10
   \<and> (initial_scores(''Quality'' \<mapsto> 10)) ''Security'' = Some 5
   \<and> process_analysis_result \<lparr>cfg = default_config\<rparr> (\<lambda>v. []) (JDict [(''overall_score'', JInt 7)])
     = Inr \<lparr>overall_score = JInt 7, scores = initial_scores, issues = [],
          recommendations = JList [], summary = JStr ''Analysis completed''\<rparr>
   \<and> scores \<lparr>overall_score = JInt 7, scores = initial_scores, issues = [],
          recommendations = JList [], summary = JStr ''Analysis completed''\<rparr> = initial_scores"
proof -
  have r: "round_half_even (5 / 2) = 2"
    using round_half_even_tie [of "5 / 2" 2] by simp
  have e1: "normalize_scores (JDict [(''Quality'', JInt 8), (''Security'', JFloat (Fin (5 / 2))),
      (''Performance'', JStr ''high'')]) = Inr (initial_scores(''Quality'' \<mapsto> 8, ''Security'' \<mapsto> 2))"
    by (simp add: r)
  have e2: "distinct (map fst [(''Quality'', JInt 8), (''Security'', JFloat (Fin (5 / 2))),
      (''Performance'', JStr ''high'')])"
    by simp
  have e3: "normalize_scores (JDict [(''Quality'', JInt 12)]) = Inr (initial_scores(''Quality'' \<mapsto> 10))"
    by simp
  have e4: "distinct (map fst [(''Quality'', JInt 12)])"
    by simp
  have e5: "process_analysis_result \<lparr>cfg = default_config\<rparr> (\<lambda>v. []) (JDict [(''overall_score'', JInt 7)])
     = Inr \<lparr>overall_score = JInt 7, scores = initial_scores, issues = [],
          recommendations = JList [], summary = JStr ''Analysis completed''\<rparr>"
    by (simp add: dict_get_def validate_issues_def)
  from normalize_scores_values [of "[(''Quality'', JInt 8), (''Security'', JFloat (Fin (5 / 2))),
      (''Performance'', JStr ''high'')]" "initial_scores(''Quality'' \<mapsto> 8, ''Security'' \<mapsto> 2)" "''Quality''" "\<lparr>cfg = default_config\<rparr>" "\<lambda>v. []"
      "[(''overall_score'', JInt 7)]" "\<lparr>overall_score = JInt 7, scores = initial_scores, issues = [],
          recommendations = JList [], summary = JStr ''Analysis completed''\<rparr>"] e1 e2 e5
  have q: "(initial_scores(''Quality'' \<mapsto> 8, ''Security'' \<mapsto> 2)) ''Quality'' = Some 8"
    and sc: "scores \<lparr>overall_score = JInt 7, scores = initial_scores, issues = [],
          recommendations = JList [], summary = JStr ''Analysis completed''\<rparr> = initial_scores"
    by simp_all
  from normalize_scores_values [of "[(''Quality'', JInt 8), (''Security'', JFloat (Fin (5 / 2))),
      (''Performance'', JStr ''high'')]" "initial_scores(''Quality'' \<mapsto> 8, ''Security'' \<mapsto> 2)" "''Security''" "\<lparr>cfg = default_config\<rparr>" "\<lambda>v. []"
      "[(''overall_score'', JInt 7)]" "\<lparr>overall_score = JInt 7, scores = initial_scores, issues = [],
          recommendations = JList [], summary = JStr ''Analysis completed''\<rparr>"] e1 e2
  have s: "(initial_scores(''Quality'' \<mapsto> 8, ''Security'' \<mapsto> 2)) ''Security'' = Some 2"
    by (simp add: r)
  from normalize_scores_values [of "[(''Quality'', JInt 8), (''Security'', JFloat (Fin (5 / 2))),
      (''Performance'', JStr ''high'')]" "initial_scores(''Quality'' \<mapsto> 8, ''Security'' \<mapsto> 2)" "''Performance''" "\<lparr>cfg = default_config\<rparr>" "\<lambda>v. []"
      "[(''overall_score'', JInt 7)]" "\<lparr>overall_score = JInt 7, scores = initial_scores, issues = [],
          recommendations = JList [], summary = JStr ''Analysis completed''\<rparr>"] e1 e2
  have p: "(initial_scores(''Quality'' \<mapsto> 8, ''Security'' \<mapsto> 2)) ''Performance'' = Some 5"
    by simp
  from normalize_scores_values [of "[(''Quality'', JInt 12)]" "initial_scores(''Quality'' \<mapsto> 10)" "''Quality''" "\<lparr>cfg = default_config\<rparr>" "\<lambda>v. []"
      "[(''overall_score'', JInt 7)]" "\<lparr>overall_score = JInt 7, scores = initial_scores, issues = [],
          recommendations = JList [], summary = JStr ''Analysis completed''\<rparr>"] e3 e4
  have q2: "(initial_scores(''Quality'' \<mapsto> 10)) ''Quality'' = Some 10"
    by simp
  from normalize_scores_values [of "[(''Quality'', JInt 12)]" "initial_scores(''Quality'' \<mapsto> 10)" "''Security''" "\<lparr>cfg = default_config\<rparr>" "\<lambda>v. []"
      "[(''overall_score'', JInt 7)]" "\<lparr>overall_score = JInt 7, scores = initial_scores, issues = [],
          recommendations = JList [], summary = JStr ''Analysis completed''\<rparr>"] e3 e4
  have s2: "(initial_scores(''Quality'' \<mapsto> 10)) ''Security'' = Some 5"
    by simp
  from e1 e2 q s p e3 q2 s2 e5 sc show ?thesis by (intro conjI)
qed

subsection \<open>C2: reconciliation of the overall score\<close>

lemma recompute_condition: "(\<not> py_truthy v \<or> py_eq_int v 5) = falsy_or_five v"
proof (cases v)
  case (JFloat f)
  then show ?thesis by (cases f) (auto simp: falsy_or_five_def)
qed (auto simp: falsy_or_five_def)

lemma py_round1_nearest:
  "py_round1 (Fin x) = fl (of_int (round_half_even (x * 10)) / 10)
   \<and> nearest_tenth x (round_half_even (x * 10))"
  by (simp add: round_half_even_nearest)

lemma py_round1_not_finite: "f \<in> {PInf, NInf, NaN} \<Longrightarrow> py_round1 f = f"
  by auto

lemma process_overall:
  assumes "process_analysis_result self repr (JDict d) = Inr r"
  shows "normalize_scores (dict_get d ''scores'' (JDict [])) = Inr (scores r)
         \<and> overall_score r =
             (if falsy_or_five (dict_get d ''overall_score'' (JInt 5))
              then JFloat (weighted_overall (weights (cfg self)) (scores r))
              else dict_get d ''overall_score'' (JInt 5))"
proof -
  from assms
  have "normalize_scores (dict_get d ''scores'' (JDict [])) = Inr (scores r)
         \<and> overall_score r =
             (if \<not> py_truthy (dict_get d ''overall_score'' (JInt 5))
                   \<or> py_eq_int (dict_get d ''overall_score'' (JInt 5)) 5
              then JFloat (weighted_overall (weights (cfg self)) (scores r))
              else dict_get d ''overall_score'' (JInt 5))"
    by (auto simp: Let_def split: sum.splits)
  then show ?thesis unfolding recompute_condition .
qed

lemma score_get_known:
  assumes "normalize_scores sc = Inr m" "k \<in> {''Quality'', ''Security'', ''Performance''}"
  shows "m k = Some (score_get m k)"
proof -
  from normalize_scores_known [OF assms(1)] assms(2) have "m k \<noteq> None" by auto
  then show ?thesis by (auto simp: score_get_def)
qed

lemma fl_7_2: "fl (72 / 10) = Fin (8106479329266893 / 2 ^ 50)"
  by (rule fl_evalI [where e = "2" and n = "8106479329266893"]) (simp_all add: pow2_def)

lemma example_scores:
  "normalize_scores (JDict [(''Quality'', JInt 8), (''Security'', JInt 6), (''Performance'', JInt 4)])
     = Inr (initial_scores(''Quality'' \<mapsto> 8, ''Security'' \<mapsto> 6, ''Performance'' \<mapsto> 4))"
  by simp

lemma example_overall:
  "weighted_overall default_score_weights
     (initial_scores(''Quality'' \<mapsto> 8, ''Security'' \<mapsto> 6, ''Performance'' \<mapsto> 4))
   = fl (63 / 10)"
  unfolding fl_6_3 by (rule weighted_overall_example) (simp_all add: score_get_def)

lemma example_result:
  "process_analysis_result \<lparr>cfg = default_config\<rparr> repr
        (JDict [(''overall_score'', JInt 5),
                (''scores'', JDict [(''Quality'', JInt 8), (''Security'', JInt 6),
                                    (''Performance'', JInt 4)])])
      = Inr \<lparr>overall_score = JFloat (fl (63 / 10)),
             scores = initial_scores(''Quality'' \<mapsto> 8, ''Security'' \<mapsto> 6, ''Performance'' \<mapsto> 4),
             issues = [], recommendations = JList [], summary = JStr ''Analysis completed''\<rparr>"
proof -
  have w: "weights default_config = default_score_weights"
    by (simp add: default_config_def)
  show ?thesis
    unfolding process_analysis_result.simps
    by (simp add: dict_get_def validate_issues_def w example_overall del: normalize_scores.simps
          add: example_scores)
qed

lemma tie_scores:
  "normalize_scores (JDict [(''Quality'', JInt 1), (''Security'', JInt 1), (''Performance'', JInt 2)])
     = Inr (initial_scores(''Quality'' \<mapsto> 1, ''Security'' \<mapsto> 1, ''Performance'' \<mapsto> 2))"
  by simp

lemma tie_overall:
  "weighted_overall default_score_weights
     (initial_scores(''Quality'' \<mapsto> 1, ''Security'' \<mapsto> 1, ''Performance'' \<mapsto> 2))
   = fl (12 / 10)"
proof -
  have "weighted_float_sum default_score_weights
          (score_get (initial_scores(''Quality'' \<mapsto> 1, ''Security'' \<mapsto> 1, ''Performance'' \<mapsto> 2)) ''Quality'')
          (score_get (initial_scores(''Quality'' \<mapsto> 1, ''Security'' \<mapsto> 1, ''Performance'' \<mapsto> 2)) ''Security'')
          (score_get (initial_scores(''Quality'' \<mapsto> 1, ''Security'' \<mapsto> 1, ''Performance'' \<mapsto> 2)) ''Performance'')
        = weighted_float_sum default_score_weights 1 1 2"
    by (simp add: score_get_def)
  then show ?thesis
    unfolding weighted_overall_unfold by (simp only: tie_float_sum tie_rounded fl_1_2)
qed

lemma tie_result:
  "process_analysis_result \<lparr>cfg = default_config\<rparr> repr
        (JDict [(''scores'', JDict [(''Quality'', JInt 1), (''Security'', JInt 1),
                                   (''Performance'', JInt 2)])])
      = Inr \<lparr>overall_score = JFloat (fl (12 / 10)),
        scores = initial_scores(''Quality'' \<mapsto> 1, ''Security'' \<mapsto> 1, ''Performance'' \<mapsto> 2),
        issues = [], recommendations = JList [], summary = JStr ''Analysis completed''\<rparr>"
proof -
  have w: "weights default_config = default_score_weights"
    by (simp add: default_config_def)
  show ?thesis
    unfolding process_analysis_result.simps
    by (simp add: dict_get_def validate_issues_def w tie_overall falsy_or_five_def
          del: normalize_scores.simps add: tie_scores)
qed

text \<open>
  C2: whenever \<^verbatim>\<open>_process_analysis_result\<close> returns, the raw reply is a mapping and the three
  normalized scores are present. If the raw \<^verbatim>\<open>overall_score\<close> (5 when absent) is falsy or
  equal to 5, the overall score of the result is the weighted sum of the normalized scores
  rounded to one decimal: when the float sum is the finite number \<open>x\<close>, it is the float of
  \<open>k / 10\<close> for the \<open>k\<close> that makes \<open>k / 10\<close> the nearest one-decimal number to \<open>x\<close> (ties
  to the even digit), and an infinite or undefined sum is kept. If the raw value is
  neither falsy nor equal to 5, it is passed through unchanged. With the raw overall score
  5, the scores 8, 6, 4 and the default weights 0.4, 0.35, 0.25 the result holds the float
  6.3; with no raw overall score and the scores 1, 1, 2 the float sum is 1.25 and the
  result holds the float 1.2.
\<close>

theorem overall_score_reconciliation:
  "(process_analysis_result self repr raw = Inr r
      \<longrightarrow> (\<exists>d q s p. raw = JDict d
             \<and> scores r ''Quality'' = Some q \<and> scores r ''Security'' = Some s
             \<and> scores r ''Performance'' = Some p
             \<and> (falsy_or_five (dict_get d ''overall_score'' (JInt 5))
                  \<longrightarrow> (\<forall>x. weighted_float_sum (weights (cfg self)) q s p = Fin x
                         \<longrightarrow> (\<exists>k. nearest_tenth x k
                                  \<and> overall_score r = JFloat (fl (of_int k / 10))))
                    \<and> (weighted_float_sum (weights (cfg self)) q s p \<in> {PInf, NInf, NaN}
                         \<longrightarrow> overall_score r
                             = JFloat (weighted_float_sum (weights (cfg self)) q s p)))
             \<and> (\<not> falsy_or_five (dict_get d ''overall_score'' (JInt 5))
                  \<longrightarrow> overall_score r = dict_get d ''overall_score'' (JInt 5))))
   \<and> process_analysis_result \<lparr>cfg = default_config\<rparr> repr
        (JDict [(''overall_score'', JInt 5),
                (''scores'', JDict [(''Quality'', JInt 8), (''Security'', JInt 6),
                                    (''Performance'', JInt 4)])])
      = Inr \<lparr>overall_score = JFloat (fl (63 / 10)),
             scores = initial_scores(''Quality'' \<mapsto> 8, ''Security'' \<mapsto> 6, ''Performance'' \<mapsto> 4),
             issues = [], recommendations = JList [], summary = JStr ''Analysis completed''\<rparr>
   \<and> weighted_float_sum default_score_weights 1 1 2 = Fin (5 / 4)
   \<and> process_analysis_result \<lparr>cfg = default_config\<rparr> repr
        (JDict [(''scores'', JDict [(''Quality'', JInt 1), (''Security'', JInt 1),
                                   (''Performance'', JInt 2)])])
      = Inr \<lparr>overall_score = JFloat (fl (12 / 10)),
        scores = initial_scores(''Quality'' \<mapsto> 1, ''Security'' \<mapsto> 1, ''Performance'' \<mapsto> 2),
        issues = [], recommendations = JList [], summary = JStr ''Analysis completed''\<rparr>"
proof (intro conjI)
  show "process_analysis_result self repr raw = Inr r
      \<longrightarrow> (\<exists>d q s p. raw = JDict d
             \<and> scores r ''Quality'' = Some q \<and> scores r ''Security'' = Some s
             \<and> scores r ''Performance'' = Some p
             \<and> (falsy_or_five (dict_get d ''overall_score'' (JInt 5))
                  \<longrightarrow> (\<forall>x. weighted_float_sum (weights (cfg self)) q s p = Fin x
                         \<longrightarrow> (\<exists>k. nearest_tenth x k
                                  \<and> overall_score r = JFloat (fl (of_int k / 10))))
                    \<and> (weighted_float_sum (weights (cfg self)) q s p \<in> {PInf, NInf, NaN}
                         \<longrightarrow> overall_score r
                             = JFloat (weighted_float_sum (weights (cfg self)) q s p)))
             \<and> (\<not> falsy_or_five (dict_get d ''overall_score'' (JInt 5))
                  \<longrightarrow> overall_score r = dict_get d ''overall_score'' (JInt 5)))"
  proof
    assume ret: "process_analysis_result self repr raw = Inr r"
    then obtain d where raw: "raw = JDict d" by (cases raw) simp_all
    from process_overall [OF ret [unfolded raw]]
    have n: "normalize_scores (dict_get d ''scores'' (JDict [])) = Inr (scores r)"
      and o: "overall_score r =
             (if falsy_or_five (dict_get d ''overall_score'' (JInt 5))
              then JFloat (weighted_overall (weights (cfg self)) (scores r))
              else dict_get d ''overall_score'' (JInt 5))"
      by simp_all
    define q where "q = score_get (scores r) ''Quality''"
    define s where "s = score_get (scores r) ''Security''"
    define p where "p = score_get (scores r) ''Performance''"
    have q: "scores r ''Quality'' = Some q"
      unfolding q_def by (rule score_get_known [OF n]) simp
    have s: "scores r ''Security'' = Some s"
      unfolding s_def by (rule score_get_known [OF n]) simp
    have p: "scores r ''Performance'' = Some p"
      unfolding p_def by (rule score_get_known [OF n]) simp
    have wo: "weighted_overall (weights (cfg self)) (scores r)
                = py_round1 (weighted_float_sum (weights (cfg self)) q s p)"
      unfolding weighted_overall_unfold q_def s_def p_def ..
    have fin: "\<forall>x. weighted_float_sum (weights (cfg self)) q s p = Fin x
                 \<longrightarrow> (\<exists>k. nearest_tenth x k \<and> overall_score r = JFloat (fl (of_int k / 10)))"
      if "falsy_or_five (dict_get d ''overall_score'' (JInt 5))"
    proof (intro allI impI)
      fix x
      assume x: "weighted_float_sum (weights (cfg self)) q s p = Fin x"
      from o that wo x have "overall_score r = JFloat (py_round1 (Fin x))" by simp
      with py_round1_nearest [of x]
      have "nearest_tenth x (round_half_even (x * 10))
            \<and> overall_score r = JFloat (fl (of_int (round_half_even (x * 10)) / 10))"
        by simp
      then show "\<exists>k. nearest_tenth x k \<and> overall_score r = JFloat (fl (of_int k / 10))" ..
    qed
    have inf: "weighted_float_sum (weights (cfg self)) q s p \<in> {PInf, NInf, NaN}
                 \<longrightarrow> overall_score r = JFloat (weighted_float_sum (weights (cfg self)) q s p)"
      if "falsy_or_five (dict_get d ''overall_score'' (JInt 5))"
    proof
      assume "weighted_float_sum (weights (cfg self)) q s p \<in> {PInf, NInf, NaN}"
      from py_round1_not_finite [OF this] o that wo
      show "overall_score r = JFloat (weighted_float_sum (weights (cfg self)) q s p)" by simp
    qed
    from o have b: "\<not> falsy_or_five (dict_get d ''overall_score'' (JInt 5))
        \<longrightarrow> overall_score r = dict_get d ''overall_score'' (JInt 5)"
      by simp
    from raw q s p fin inf b show "(\<exists>d q s p. raw = JDict d
             \<and> scores r ''Quality'' = Some q \<and> scores r ''Security'' = Some s
             \<and> scores r ''Performance'' = Some p
             \<and> (falsy_or_five (dict_get d ''overall_score'' (JInt 5))
                  \<longrightarrow> (\<forall>x. weighted_float_sum (weights (cfg self)) q s p = Fin x
                         \<longrightarrow> (\<exists>k. nearest_tenth x k
                                  \<and> overall_score r = JFloat (fl (of_int k / 10))))
                    \<and> (weighted_float_sum (weights (cfg self)) q s p \<in> {PInf, NInf, NaN}
                         \<longrightarrow> overall_score r
                             = JFloat (weighted_float_sum (weights (cfg self)) q s p)))
             \<and> (\<not> falsy_or_five (dict_get d ''overall_score'' (JInt 5))
                  \<longrightarrow> overall_score r = dict_get d ''overall_score'' (JInt 5)))"
      by blast
  qed
next
  show "process_analysis_result \<lparr>cfg = default_config\<rparr> repr
        (JDict [(''overall_score'', JInt 5),
                (''scores'', JDict [(''Quality'', JInt 8), (''Security'', JInt 6),
                                    (''Performance'', JInt 4)])])
      = Inr \<lparr>overall_score = JFloat (fl (63 / 10)),
             scores = initial_scores(''Quality'' \<mapsto> 8, ''Security'' \<mapsto> 6, ''Performance'' \<mapsto> 4),
             issues = [], recommendations = JList [], summary = JStr ''Analysis completed''\<rparr>"
    by (rule example_result)
next
  show "weighted_float_sum default_score_weights 1 1 2 = Fin (5 / 4)"
    unfolding tie_float_sum by simp
next
  show "process_analysis_result \<lparr>cfg = default_config\<rparr> repr
        (JDict [(''scores'', JDict [(''Quality'', JInt 1), (''Security'', JInt 1),
                                   (''Performance'', JInt 2)])])
      = Inr \<lparr>overall_score = JFloat (fl (12 / 10)),
        scores = initial_scores(''Quality'' \<mapsto> 1, ''Security'' \<mapsto> 1, ''Performance'' \<mapsto> 2),
        issues = [], recommendations = JList [], summary = JStr ''Analysis completed''\<rparr>"
    by (rule tie_result)
qed

theorem overall_score_reconciliation_witness:
  "process_analysis_result \<lparr>cfg = default_config\<rparr> (\<lambda>v. [])
     (JDict [(''overall_score'', JFloat (Fin (8106479329266893 / 2 ^ 50)))])
   = Inr \<lparr>overall_score = JFloat (Fin (8106479329266893 / 2 ^ 50)), scores = initial_scores, issues = [],
          recommendations = JList [], summary = JStr ''Analysis completed''\<rparr>
   \<and> \<not> falsy_or_five (JFloat (Fin (8106479329266893 / 2 ^ 50)))
   \<and> overall_score \<lparr>overall_score = JFloat (Fin (8106479329266893 / 2 ^ 50)), scores = initial_scores, issues = [],
          recommendations = JList [], summary = JStr ''Analysis completed''\<rparr>
       = JFloat (Fin (8106479329266893 / 2 ^ 50))
   \<and> (\<exists>k. nearest_tenth (5 / 4) k \<and> JFloat (fl (12 / 10)) = JFloat (fl (of_int k / 10)))"
proof -
  have e: "process_analysis_result \<lparr>cfg = default_config\<rparr> (\<lambda>v. [])
     (JDict [(''overall_score'', JFloat (Fin (8106479329266893 / 2 ^ 50)))])
   = Inr \<lparr>overall_score = JFloat (Fin (8106479329266893 / 2 ^ 50)), scores = initial_scores, issues = [],
          recommendations = JList [], summary = JStr ''Analysis completed''\<rparr>"
    by (simp add: dict_get_def validate_issues_def)
  have f: "\<not> falsy_or_five (JFloat (Fin (8106479329266893 / 2 ^ 50)))"
    by (simp add: falsy_or_five_def)
  from overall_score_reconciliation [of "\<lparr>cfg = default_config\<rparr>" "\<lambda>v. []"
      "JDict [(''overall_score'', JFloat (Fin (8106479329266893 / 2 ^ 50)))]"
      "\<lparr>overall_score = JFloat (Fin (8106479329266893 / 2 ^ 50)), scores = initial_scores, issues = [],
          recommendations = JList [], summary = JStr ''Analysis completed''\<rparr>", THEN conjunct1] e f
  have o: "overall_score \<lparr>overall_score = JFloat (Fin (8106479329266893 / 2 ^ 50)), scores = initial_scores, issues = [],
          recommendations = JList [], summary = JStr ''Analysis completed''\<rparr>
       = JFloat (Fin (8106479329266893 / 2 ^ 50))"
    by (simp add: dict_get_def)
  note t = overall_score_reconciliation [of "\<lparr>cfg = default_config\<rparr>" "\<lambda>v. []"
      "(JDict [(''scores'', JDict [(''Quality'', JInt 1), (''Security'', JInt 1),
                                   (''Performance'', JInt 2)])])"
      "\<lparr>overall_score = JFloat (fl (12 / 10)),
        scores = initial_scores(''Quality'' \<mapsto> 1, ''Security'' \<mapsto> 1, ''Performance'' \<mapsto> 2),
        issues = [], recommendations = JList [], summary = JStr ''Analysis completed''\<rparr>"]
  from t [THEN conjunct1, THEN mp, OF tie_result]
  obtain d q s p where d: "(JDict [(''scores'', JDict [(''Quality'', JInt 1), (''Security'', JInt 1),
                                   (''Performance'', JInt 2)])]) = JDict d"
    and q: "scores \<lparr>overall_score = JFloat (fl (12 / 10)),
        scores = initial_scores(''Quality'' \<mapsto> 1, ''Security'' \<mapsto> 1, ''Performance'' \<mapsto> 2),
        issues = [], recommendations = JList [], summary = JStr ''Analysis completed''\<rparr> ''Quality'' = Some q"
    and s: "scores \<lparr>overall_score = JFloat (fl (12 / 10)),
        scores = initial_scores(''Quality'' \<mapsto> 1, ''Security'' \<mapsto> 1, ''Performance'' \<mapsto> 2),
        issues = [], recommendations = JList [], summary = JStr ''Analysis completed''\<rparr> ''Security'' = Some s"
    and p: "scores \<lparr>overall_score = JFloat (fl (12 / 10)),
        scores = initial_scores(''Quality'' \<mapsto> 1, ''Security'' \<mapsto> 1, ''Performance'' \<mapsto> 2),
        issues = [], recommendations = JList [], summary = JStr ''Analysis completed''\<rparr> ''Performance'' = Some p"
    and w: "falsy_or_five (dict_get d ''overall_score'' (JInt 5))
        \<longrightarrow> (\<forall>x. weighted_float_sum (weights (cfg \<lparr>cfg = default_config\<rparr>)) q s p = Fin x
               \<longrightarrow> (\<exists>k. nearest_tenth x k
                      \<and> overall_score \<lparr>overall_score = JFloat (fl (12 / 10)),
        scores = initial_scores(''Quality'' \<mapsto> 1, ''Security'' \<mapsto> 1, ''Performance'' \<mapsto> 2),
        issues = [], recommendations = JList [], summary = JStr ''Analysis completed''\<rparr> = JFloat (fl (of_int k / 10))))"
    by blast
  from d have d': "d = [(''scores'', JDict [(''Quality'', JInt 1), (''Security'', JInt 1),
                                   (''Performance'', JInt 2)])]"
    by simp
  from q s p have v: "q = 1" "s = 1" "p = 2" by simp_all
  from t have sum: "weighted_float_sum default_score_weights 1 1 2 = Fin (5 / 4)"
    by (elim conjE)
  have g: "falsy_or_five (dict_get d ''overall_score'' (JInt 5))"
    unfolding d' by (simp add: dict_get_def falsy_or_five_def)
  have wd: "weights (cfg \<lparr>cfg = default_config\<rparr>) = default_score_weights"
    by (simp add: default_config_def)
  from w g sum have h: "\<exists>k. nearest_tenth (5 / 4) k
      \<and> JFloat (fl (12 / 10)) = JFloat (fl (of_int k / 10))"
    unfolding v wd by (simp del: pyfloat.inject json.inject)
  from e f o h show ?thesis by (intro conjI)
qed

subsection \<open>C10: the range of the scores and of the recomputed overall score\<close>

text \<open>
  C10: every value of the mapping that \<^verbatim>\<open>_normalize_scores\<close> returns is an int between 1
  and 10; and whenever the overall score is recomputed under the default weights, it is a
  finite float between 1.0 and 10.0.
\<close>

theorem normalized_scores_in_range:
  "(normalize_scores sc = Inr m \<and> m k = Some v \<longrightarrow> 1 \<le> v \<and> v \<le> 10)
   \<and> (weights (cfg self) = default_score_weights
        \<and> process_analysis_result self repr (JDict d) = Inr r
        \<and> falsy_or_five (dict_get d ''overall_score'' (JInt 5))
      \<longrightarrow> (\<exists>y. overall_score r = JFloat (Fin y) \<and> 1 \<le> y \<and> y \<le> 10))"
proof (rule conjI)
  show "normalize_scores sc = Inr m \<and> m k = Some v \<longrightarrow> 1 \<le> v \<and> v \<le> 10"
    using normalize_scores_range by blast
next
  show "weights (cfg self) = default_score_weights
        \<and> process_analysis_result self repr (JDict d) = Inr r
        \<and> falsy_or_five (dict_get d ''overall_score'' (JInt 5))
      \<longrightarrow> (\<exists>y. overall_score r = JFloat (Fin y) \<and> 1 \<le> y \<and> y \<le> 10)"
  proof (intro impI, elim conjE)
    assume w: "weights (cfg self) = default_score_weights"
      and ret: "process_analysis_result self repr (JDict d) = Inr r"
      and five: "falsy_or_five (dict_get d ''overall_score'' (JInt 5))"
    from process_overall [OF ret] five w
    have n: "normalize_scores (dict_get d ''scores'' (JDict [])) = Inr (scores r)"
      and o: "overall_score r = JFloat (weighted_overall default_score_weights (scores r))"
      by simp_all
    have rng: "1 \<le> score_get (scores r) k \<and> score_get (scores r) k \<le> 10"
      if "k \<in> {''Quality'', ''Security'', ''Performance''}" for k
      by (rule normalize_scores_range [OF n score_get_known [OF n that]])
    have q: "1 \<le> score_get (scores r) ''Quality''" "score_get (scores r) ''Quality'' \<le> 10"
      using rng [of "''Quality''"] by simp_all
    have s: "1 \<le> score_get (scores r) ''Security''" "score_get (scores r) ''Security'' \<le> 10"
      using rng [of "''Security''"] by simp_all
    have p: "1 \<le> score_get (scores r) ''Performance''" "score_get (scores r) ''Performance'' \<le> 10"
      using rng [of "''Performance''"] by simp_all
    from weighted_overall_between [OF q s p] show
      "\<exists>y. overall_score r = JFloat (Fin y) \<and> 1 \<le> y \<and> y \<le> 10"
      unfolding o by simp
  qed
qed

theorem normalized_scores_in_range_witness:
  "normalize_scores (JDict [(''Quality'', JInt 99)]) = Inr (initial_scores(''Quality'' \<mapsto> 10))
   \<and> (initial_scores(''Quality'' \<mapsto> 10)) ''Quality'' = Some 10
   \<and> weights (cfg \<lparr>cfg = default_config\<rparr>) = default_score_weights
   \<and> falsy_or_five (JInt 5)
   \<and> (\<exists>y. JFloat (fl (63 / 10)) = JFloat (Fin y) \<and> 1 \<le> y \<and> y \<le> 10)"
proof -
  note t = normalized_scores_in_range [of "JDict [(''Quality'', JInt 99)]"
      "initial_scores(''Quality'' \<mapsto> 10)" "''Quality''" 10 "\<lparr>cfg = default_config\<rparr>"
      "\<lambda>v. []"
      "[(''overall_score'', JInt 5),
        (''scores'', JDict [(''Quality'', JInt 8), (''Security'', JInt 6),
                            (''Performance'', JInt 4)])]"
      "\<lparr>overall_score = JFloat (fl (63 / 10)),
        scores = initial_scores(''Quality'' \<mapsto> 8, ''Security'' \<mapsto> 6, ''Performance'' \<mapsto> 4),
        issues = [], recommendations = JList [], summary = JStr ''Analysis completed''\<rparr>"]
  have a: "normalize_scores (JDict [(''Quality'', JInt 99)]) = Inr (initial_scores(''Quality'' \<mapsto> 10))"
    by simp
  have b: "(initial_scores(''Quality'' \<mapsto> 10)) ''Quality'' = Some 10" by simp
  have c: "weights (cfg \<lparr>cfg = default_config\<rparr>) = default_score_weights"
    by (simp add: default_config_def)
  have d: "falsy_or_five (JInt 5)" by (simp add: falsy_or_five_def)
  have d': "falsy_or_five (dict_get [(''overall_score'', JInt 5),
        (''scores'', JDict [(''Quality'', JInt 8), (''Security'', JInt 6),
                            (''Performance'', JInt 4)])] ''overall_score'' (JInt 5))"
    by (simp add: falsy_or_five_def dict_get_def)
  from t [THEN conjunct2, THEN mp, OF conjI [OF c conjI [OF example_result d']]]
  have e: "\<exists>y. JFloat (fl (63 / 10)) = JFloat (Fin y) \<and> 1 \<le> y \<and> y \<le> 10"
    by (simp only: result.simps)
  from a b c d e show ?thesis by (intro conjI)
qed

end
